theory Spec2Isabelle
  imports Main "HOL-Library.Multiset"
begin

section \<open>The record store of \<open>schema.ts\<close>\<close>

text \<open>
  Every table of \<open>src/server/db/schema.ts\<close> is a list of rows in insertion order; a
  row is a record with one field per column. Integer columns and \<open>z.number()\<close> inputs are
  \<open>int\<close> (a number that is not an integer is outside the model), \<open>text\<close> and
  \<open>varchar\<close> columns are \<open>string\<close>, a nullable column is an \<open>option\<close>, a \<open>jsonb\<close>
  payload is kept as its serialised text (the router never looks inside one), and a
  \<open>timestamp\<close> is a reading of a clock, a natural number. A query without \<open>orderBy\<close>
  returns the rows in the order of the table, and \<open>findFirst\<close> the first of them.
\<close>

type_synonym json = string
type_synonym timestamp = nat

datatype actionType = APPROVE | REJECT | MODIFY

record user =
  user_id :: string
  user_name :: string

record role =
  role_id :: int
  role_name :: string
  role_description :: "string option"
  role_createdAt :: timestamp

record userRole =
  ur_userId :: string
  ur_roleId :: int
  ur_isPrimary :: bool
  ur_createdAt :: timestamp

record workflowTemplate =
  tpl_id :: int
  tpl_name :: string
  tpl_description :: "string option"
  tpl_isActive :: bool
  tpl_createdAt :: timestamp

record workflowStep =
  step_id :: int
  step_workflowTemplateId :: int
  step_name :: string
  step_stepOrder :: int
  step_roleId :: int
  step_isMandatory :: bool
  step_canModify :: bool
  step_rejectionStepId :: "int option"
  step_createdAt :: timestamp

record workflowStepTransition =
  tr_id :: int
  tr_fromStepId :: int
  tr_toStepId :: int
  tr_conditionType :: "string option"
  tr_conditionValue :: "json option"
  tr_createdAt :: timestamp

record workflowInstance =
  inst_id :: int
  inst_workflowTemplateId :: int
  inst_currentStepId :: int
  inst_currentAssigneeId :: "string option"
  inst_entityType :: string
  inst_entityId :: int
  inst_status :: string
  inst_createdAt :: timestamp
  inst_completedAt :: "timestamp option"

record workflowStepAssignment =
  asg_id :: int
  asg_workflowInstanceId :: int
  asg_stepId :: int
  asg_assigneeId :: string
  asg_status :: string
  asg_assignedAt :: timestamp
  asg_completedAt :: "timestamp option"

record workflowAction =
  act_id :: int
  act_workflowInstanceId :: int
  act_stepId :: int
  act_userId :: string
  act_actionType :: actionType
  act_comments :: "string option"
  act_dataModifications :: "json option"
  act_createdAt :: timestamp

text \<open>
  Every \<open>id\<close> column is \<open>generatedByDefaultAsIdentity\<close>: the store keeps a sequence
  for it, here the last value issued. The sequences of the six tables the router inserts
  into are part of the store.
\<close>

record identity_sequences =
  seq_workflowTemplates :: int
  seq_workflowSteps :: int
  seq_workflowStepTransitions :: int
  seq_workflowInstances :: int
  seq_workflowStepAssignments :: int
  seq_workflowActions :: int

record db =
  users :: "user list"
  roles :: "role list"
  userRoles :: "userRole list"
  workflowTemplates :: "workflowTemplate list"
  workflowSteps :: "workflowStep list"
  workflowStepTransitions :: "workflowStepTransition list"
  workflowInstances :: "workflowInstance list"
  workflowStepAssignments :: "workflowStepAssignment list"
  workflowActions :: "workflowAction list"
  sequences :: identity_sequences

text \<open>
  The specification's taxonomy of errors (section 7). The router itself throws plain
  \<open>Error\<close> objects: one constructor of \<open>error\<close> per message of \<open>workflow.ts\<close>, one for
  a row or parameter that the store rejects (an integer outside the column's 32 bits, a
  text longer than its \<open>varchar\<close>, a duplicate primary key, a foreign key that names no
  row, an exhausted sequence), and those that the query builder raises before a
  statement is sent. \<open>SpecError\<close> is raised only by the two handlers that are modelled
  from the specification (below). \<open>kindOf\<close> reads a thrown error in the taxonomy, by
  its message; what comes from the store or the query builder is an internal error.
\<close>

datatype errorKind =
    ValidationError | NotFoundError | NoEligibleAssigneeError | UnauthorizedActionError
  | InstanceClosedError | ForbiddenActionError | ConcurrencyConflictError | InternalError

datatype error =
    TemplateNotCreated          \<comment> \<open>"Workflow template not created"\<close>
  | TemplateNotFoundOrNoSteps   \<comment> \<open>"Workflow template not found or has no steps"\<close>
  | NoFirstStep                 \<comment> \<open>"Workflow template has no first step"\<close>
  | NoEligibleUsers             \<comment> \<open>"No eligible users found for first step"\<close>
  | InstanceNotCreated          \<comment> \<open>"instance not found", after the insert\<close>
  | InstanceNotFound            \<comment> \<open>"Workflow instance not found"\<close>
  | NotAuthorized               \<comment> \<open>"Not authorized to take action on this step"\<close>
  | StoreError                  \<comment> \<open>the store rejects a statement\<close>
  | EmptyValues                 \<comment> \<open>"values() must be called with at least one value"\<close>
  | RelationNotInferable string \<comment> \<open>"There is not enough information to infer relation ..."\<close>
  | MultipleRelations string    \<comment> \<open>"There are multiple relations ..."\<close>
  | SpecError errorKind

fun kindOf :: "error \<Rightarrow> errorKind" where
  "kindOf TemplateNotFoundOrNoSteps = NotFoundError"
| "kindOf NoFirstStep = NotFoundError"
| "kindOf InstanceNotFound = NotFoundError"
| "kindOf NoEligibleUsers = NoEligibleAssigneeError"
| "kindOf NotAuthorized = UnauthorizedActionError"
| "kindOf (SpecError kind) = kind"
| "kindOf TemplateNotCreated = InternalError"
| "kindOf InstanceNotCreated = InternalError"
| "kindOf StoreError = InternalError"
| "kindOf EmptyValues = InternalError"
| "kindOf (RelationNotInferable relation) = InternalError"
| "kindOf (MultipleRelations relation) = InternalError"

text \<open>
  A statement run against the store returns its outcome and the store after it.
\<close>

type_synonym 'a outcome = "(error + 'a) \<times> db"

text \<open>
  What the column types accept: an \<open>integer\<close> column a number of 32 bits, a
  \<open>varchar(n)\<close> column a text of at most \<open>n\<close> characters. A sequence issues the value
  after the last one, up to the largest \<open>integer\<close>. The numbers of an input are whole
  numbers here (\<open>z.number()\<close> also admits fractions, which an \<open>integer\<close> column
  refuses), and a \<open>string\<close> is a sequence of characters of the store's encoding.
\<close>

definition int32 :: "int \<Rightarrow> bool" where
  "int32 n \<longleftrightarrow> - 2147483648 \<le> n \<and> n \<le> 2147483647"

definition varchar :: "nat \<Rightarrow> string \<Rightarrow> bool" where
  "varchar n s \<longleftrightarrow> length s \<le> n"

definition nextval :: "int \<Rightarrow> int option" where
  "nextval lastValue = (if lastValue + 1 \<le> 2147483647 then Some (lastValue + 1) else None)"

text \<open>
  \<open>db.transaction(async (tx) => ...)\<close>: when the callback throws, every row it wrote is
  rolled back and the error reaches the caller. A value taken from a sequence is not
  given back.
\<close>

definition transaction :: "(db \<Rightarrow> 'a outcome) \<Rightarrow> db \<Rightarrow> 'a outcome" where
  "transaction body d =
     (case body d of
        (Inl e, d') \<Rightarrow> (Inl e, d\<lparr>sequences := sequences d'\<rparr>)
      | (Inr r, d') \<Rightarrow> (Inr r, d'))"

section \<open>The relations of \<open>schema.ts\<close>\<close>

text \<open>
  The second half of \<open>schema.ts\<close> declares, table by table, the relations that the
  relational queries of the router may load (\<open>with: {...}\<close>). A \<open>one(table, {fields,
  references})\<close> names its columns; a \<open>many(table)\<close> or \<open>many(table, {relationName})\<close>
  names none. The tables \<open>workflowStepTransitions\<close>, \<open>workflowStepAssignments\<close> and
  \<open>workflowActions\<close> have no \<open>relations(...)\<close> declaration. No \<open>one\<close> of this schema
  has a relation name.
\<close>

datatype table =
    Users | Roles | UserRoles | WorkflowTemplates | WorkflowSteps | WorkflowStepTransitions
  | WorkflowInstances | WorkflowStepAssignments | WorkflowActions

datatype relation =
    RelOne table "string list" "string list"
  | RelMany table "string option"

fun relations :: "table \<Rightarrow> (string \<times> relation) list" where
  "relations Users =
     [(''userRoles'', RelMany UserRoles None),
      (''assignedWorkflows'', RelMany WorkflowInstances (Some ''assignedWorkflows'')),
      (''workflowActions'', RelMany WorkflowActions None)]"
| "relations Roles =
     [(''userRoles'', RelMany UserRoles None),
      (''workflowSteps'', RelMany WorkflowSteps None)]"
| "relations UserRoles =
     [(''user'', RelOne Users [''userId''] [''id'']),
      (''role'', RelOne Roles [''roleId''] [''id''])]"
| "relations WorkflowTemplates =
     [(''steps'', RelMany WorkflowSteps None),
      (''instances'', RelMany WorkflowInstances None)]"
| "relations WorkflowSteps =
     [(''template'', RelOne WorkflowTemplates [''workflowTemplateId''] [''id'']),
      (''role'', RelOne Roles [''roleId''] [''id'']),
      (''rejectionStep'', RelOne WorkflowSteps [''rejectionStepId''] [''id'']),
      (''fromTransitions'', RelMany WorkflowStepTransitions (Some ''fromTransitions'')),
      (''toTransitions'', RelMany WorkflowStepTransitions (Some ''toTransitions'')),
      (''assignments'', RelMany WorkflowStepAssignments None),
      (''actions'', RelMany WorkflowActions None)]"
| "relations WorkflowInstances =
     [(''template'', RelOne WorkflowTemplates [''workflowTemplateId''] [''id'']),
      (''currentStep'', RelOne WorkflowSteps [''currentStepId''] [''id'']),
      (''currentAssignee'', RelOne Users [''currentAssigneeId''] [''id'']),
      (''assignments'', RelMany WorkflowStepAssignments None),
      (''actions'', RelMany WorkflowActions None)]"
| "relations WorkflowStepTransitions = []"
| "relations WorkflowStepAssignments = []"
| "relations WorkflowActions = []"

fun tableName :: "table \<Rightarrow> string" where
  "tableName Users = ''users''"
| "tableName Roles = ''roles''"
| "tableName UserRoles = ''userRoles''"
| "tableName WorkflowTemplates = ''workflowTemplates''"
| "tableName WorkflowSteps = ''workflowSteps''"
| "tableName WorkflowStepTransitions = ''workflowStepTransitions''"
| "tableName WorkflowInstances = ''workflowInstances''"
| "tableName WorkflowStepAssignments = ''workflowStepAssignments''"
| "tableName WorkflowActions = ''workflowActions''"

fun referencedTable :: "relation \<Rightarrow> table" where
  "referencedTable (RelOne referenced fieldColumns referenceColumns) = referenced"
| "referencedTable (RelMany referenced name) = referenced"

fun relationName :: "relation \<Rightarrow> string option" where
  "relationName (RelOne referenced fieldColumns referenceColumns) = None"
| "relationName (RelMany referenced name) = name"

text \<open>
  How the query builder finds the columns of a relation it is asked to load, while it
  builds the query. A \<open>one\<close> with columns has them. Otherwise the columns are those of
  the reverse relation: among the relations declared for the referenced table, the other
  relation of the same name, or, for a relation without name, the relation back to the
  source table. More than one candidate is an error; so is a candidate that is not a
  \<open>one\<close> with columns, and so is none at all ("There is not enough information to infer
  relation"). The result is the columns of the source table and the matching columns of
  the referenced table.
\<close>

definition normalizeRelation ::
  "table \<Rightarrow> string \<Rightarrow> relation \<Rightarrow> error + (string list \<times> string list)" where
  "normalizeRelation source fieldName relation =
     (case relation of
        RelOne referenced fieldColumns referenceColumns \<Rightarrow> Inr (fieldColumns, referenceColumns)
      | RelMany referenced name \<Rightarrow>
          (let reverseRelations =
                 filter (\<lambda>(reverseField, reverse).
                           (case name of
                              Some n \<Rightarrow>
                                \<not> (referenced = source \<and> reverseField = fieldName)
                                \<and> relationName reverse = Some n
                            | None \<Rightarrow> referencedTable reverse = source))
                   (relations referenced)
           in if length reverseRelations > 1
              then Inl (MultipleRelations (tableName referenced))
              else
                (case reverseRelations of
                   (reverseField, RelOne back fieldColumns referenceColumns) # rest \<Rightarrow>
                     Inr (referenceColumns, fieldColumns)
                 | _ \<Rightarrow> Inl (RelationNotInferable (tableName source @ ''.'' @ fieldName)))))"

definition relationColumns :: "table \<Rightarrow> string \<Rightarrow> error + (string list \<times> string list)" where
  "relationColumns source fieldName =
     (case map_of (relations source) fieldName of
        None \<Rightarrow> Inl (RelationNotInferable (tableName source @ ''.'' @ fieldName))
      | Some relation \<Rightarrow> normalizeRelation source fieldName relation)"

section \<open>\<open>createWorkflowTemplate\<close>\<close>

record stepInput =
  si_name :: string
  si_stepOrder :: int
  si_roleId :: int
  si_isMandatory :: bool
  si_canModify :: bool
  si_rejectionStepId :: "int option"

record transitionInput =
  ti_fromStepId :: int
  ti_toStepId :: int
  ti_conditionType :: "string option"
  ti_conditionValue :: "json option"

record createWorkflowTemplateInput =
  cwt_name :: string
  cwt_description :: string
  cwt_steps :: "stepInput list"
  cwt_transitions :: "transitionInput list"

text \<open>
  An insert of one row, in the order of the store: the parameters are bound, and an
  integer outside its column's 32 bits fails there; the identity is taken from the
  sequence; the row is stored if its texts fit their columns, its identity is not in the
  table yet and its references name rows. \<open>.returning()\<close> gives the list of the rows
  inserted.

  \<open>tx.insert(workflowTemplates).values({name, description, isActive: true}).returning()\<close>:
  \<open>name\<close> is \<open>varchar(255)\<close>, \<open>description\<close> is \<open>text\<close>, \<open>createdAt\<close> is the column
  default, the store's clock.
\<close>

definition insert_workflowTemplates ::
  "timestamp \<Rightarrow> string \<Rightarrow> string \<Rightarrow> bool \<Rightarrow> db \<Rightarrow> workflowTemplate list outcome" where
  "insert_workflowTemplates now name description isActive d =
     (case nextval (seq_workflowTemplates (sequences d)) of
        None \<Rightarrow> (Inl StoreError, d)
      | Some i \<Rightarrow>
          (let d1 = d\<lparr>sequences := (sequences d)\<lparr>seq_workflowTemplates := i\<rparr>\<rparr>;
               row = \<lparr>tpl_id = i, tpl_name = name, tpl_description = Some description,
                      tpl_isActive = isActive, tpl_createdAt = now\<rparr>
           in if varchar 255 name \<and> i \<notin> set (map tpl_id (workflowTemplates d))
              then (Inr [row], d1\<lparr>workflowTemplates := workflowTemplates d @ [row]\<rparr>)
              else (Inl StoreError, d1)))"

text \<open>
  \<open>tx.insert(workflowSteps).values({...step, workflowTemplateId: template.id}).returning()\<close>.
  \<open>name\<close> is \<open>varchar(255)\<close>; \<open>step_order\<close>, \<open>role_id\<close> and \<open>rejection_step_id\<close> are
  \<open>integer\<close>. The columns \<open>workflow_template_id\<close> and \<open>role_id\<close> reference
  \<open>workflowTemplates.id\<close> and \<open>roles.id\<close>; the reference of \<open>rejection_step_id\<close> is
  commented out in the schema, so that column takes any integer.
\<close>

definition insert_workflowSteps ::
  "timestamp \<Rightarrow> stepInput \<Rightarrow> int \<Rightarrow> db \<Rightarrow> workflowStep list outcome" where
  "insert_workflowSteps now step templateId d =
     (if int32 (si_stepOrder step) \<and> int32 (si_roleId step)
         \<and> (case si_rejectionStepId step of None \<Rightarrow> True | Some r \<Rightarrow> int32 r)
      then
        (case nextval (seq_workflowSteps (sequences d)) of
           None \<Rightarrow> (Inl StoreError, d)
         | Some i \<Rightarrow>
             (let d1 = d\<lparr>sequences := (sequences d)\<lparr>seq_workflowSteps := i\<rparr>\<rparr>;
                  row = \<lparr>step_id = i, step_workflowTemplateId = templateId,
                         step_name = si_name step, step_stepOrder = si_stepOrder step,
                         step_roleId = si_roleId step, step_isMandatory = si_isMandatory step,
                         step_canModify = si_canModify step,
                         step_rejectionStepId = si_rejectionStepId step, step_createdAt = now\<rparr>
              in if varchar 255 (si_name step)
                    \<and> i \<notin> set (map step_id (workflowSteps d))
                    \<and> templateId \<in> set (map tpl_id (workflowTemplates d))
                    \<and> si_roleId step \<in> set (map role_id (roles d))
                 then (Inr [row], d1\<lparr>workflowSteps := workflowSteps d @ [row]\<rparr>)
                 else (Inl StoreError, d1)))
      else (Inl StoreError, d))"

text \<open>
  \<open>Promise.all(input.steps.map(async (step) => { const [newStep] = ...; return newStep }))\<close>:
  one insert per supplied step, in the order supplied; the result has one entry per step
  (\<open>undefined\<close>, here \<open>None\<close>, where an insert returned no row), and the first insert that
  throws rejects the whole.
\<close>

fun insert_steps ::
  "timestamp \<Rightarrow> int \<Rightarrow> stepInput list \<Rightarrow> db \<Rightarrow> workflowStep option list outcome" where
  "insert_steps now templateId [] d = (Inr [], d)"
| "insert_steps now templateId (step # rest) d =
     (case insert_workflowSteps now step templateId d of
        (Inl e, d1) \<Rightarrow> (Inl e, d1)
      | (Inr rows, d1) \<Rightarrow>
          (case insert_steps now templateId rest d1 of
             (Inl e, d2) \<Rightarrow> (Inl e, d2)
           | (Inr news, d2) \<Rightarrow>
               (Inr ((case rows of [] \<Rightarrow> None | newStep # _ \<Rightarrow> Some newStep) # news), d2)))"

text \<open>
  \<open>tx.insert(workflowStepTransitions).values(input.transitions.map((transition) =>
  ({...transition, createdAt: new Date()})))\<close>: one statement for all the rows, which
  carry the supplied fields as they are and the application's clock. \<open>values\<close> throws
  on an empty list, before anything is sent. \<open>from_step_id\<close> and \<open>to_step_id\<close> are
  \<open>integer\<close> and reference \<open>workflowSteps.id\<close>; \<open>condition_type\<close> is \<open>varchar(50)\<close>.
  The rows are stored one after the other, each with the next identity; the references
  are checked when all are stored; a statement that fails stores none of its rows.
\<close>

fun store_transitions :: "timestamp \<Rightarrow> transitionInput list \<Rightarrow> db \<Rightarrow> unit outcome" where
  "store_transitions date [] d = (Inr (), d)"
| "store_transitions date (transition # rest) d =
     (case nextval (seq_workflowStepTransitions (sequences d)) of
        None \<Rightarrow> (Inl StoreError, d)
      | Some i \<Rightarrow>
          (let d1 = d\<lparr>sequences := (sequences d)\<lparr>seq_workflowStepTransitions := i\<rparr>\<rparr>;
               row = \<lparr>tr_id = i, tr_fromStepId = ti_fromStepId transition,
                      tr_toStepId = ti_toStepId transition,
                      tr_conditionType = ti_conditionType transition,
                      tr_conditionValue = ti_conditionValue transition, tr_createdAt = date\<rparr>
           in if (case ti_conditionType transition of None \<Rightarrow> True | Some c \<Rightarrow> varchar 50 c)
                 \<and> i \<notin> set (map tr_id (workflowStepTransitions d))
              then store_transitions date rest
                     (d1\<lparr>workflowStepTransitions := workflowStepTransitions d @ [row]\<rparr>)
              else (Inl StoreError, d1)))"

definition insert_workflowStepTransitions ::
  "timestamp \<Rightarrow> transitionInput list \<Rightarrow> db \<Rightarrow> unit outcome" where
  "insert_workflowStepTransitions date transitions d =
     (if transitions = [] then (Inl EmptyValues, d)
      else if \<not> list_all (\<lambda>t. int32 (ti_fromStepId t) \<and> int32 (ti_toStepId t)) transitions
      then (Inl StoreError, d)
      else
        (case store_transitions date transitions d of
           (Inl e, d1) \<Rightarrow> (Inl e, d\<lparr>sequences := sequences d1\<rparr>)
         | (Inr u, d1) \<Rightarrow>
             if list_all (\<lambda>t. ti_fromStepId t \<in> set (map step_id (workflowSteps d))
                              \<and> ti_toStepId t \<in> set (map step_id (workflowSteps d)))
                  transitions
             then (Inr (), d1)
             else (Inl StoreError, d\<lparr>sequences := sequences d1\<rparr>)))"

definition createWorkflowTemplate ::
  "timestamp \<Rightarrow> timestamp \<Rightarrow> createWorkflowTemplateInput \<Rightarrow> db \<Rightarrow> workflowTemplate outcome" where
  "createWorkflowTemplate now date input =
     transaction (\<lambda>tx.
       case insert_workflowTemplates now (cwt_name input) (cwt_description input) True tx of
         (Inl e, tx1) \<Rightarrow> (Inl e, tx1)
       | (Inr [], tx1) \<Rightarrow> (Inl TemplateNotCreated, tx1)
       | (Inr (template # _), tx1) \<Rightarrow>
           (case insert_steps now (tpl_id template) (cwt_steps input) tx1 of
              (Inl e, tx2) \<Rightarrow> (Inl e, tx2)
            | (Inr steps, tx2) \<Rightarrow>
                if length steps > 0 then
                  (case insert_workflowStepTransitions date (cwt_transitions input) tx2 of
                     (Inl e, tx3) \<Rightarrow> (Inl e, tx3)
                   | (Inr _, tx3) \<Rightarrow> (Inr template, tx3))
                else (Inr template, tx2)))"

section \<open>\<open>startWorkflow\<close>\<close>

record startWorkflowInput =
  sw_templateId :: int
  sw_entityType :: string
  sw_entityId :: int

text \<open>
  \<open>db.query.workflowTemplates.findFirst({where: eq(workflowTemplates.id, templateId),
  with: {steps: {where: eq(workflowSteps.stepOrder, 1), limit: 1}}})\<close>: the first
  template row of that identity, with at most one of its steps of order 1 (relation
  \<open>steps\<close>: the steps whose \<open>workflowTemplateId\<close> is the template's identity).
  The relation is a \<open>many\<close> without columns; the query builder infers them from
  \<open>workflowSteps.template\<close>, as \<open>relationColumns\<close> above does.
\<close>

definition findFirst_template_with_steps ::
  "int \<Rightarrow> db \<Rightarrow> (workflowTemplate \<times> workflowStep list) option" where
  "findFirst_template_with_steps templateId d =
     (case find (\<lambda>t. tpl_id t = templateId) (workflowTemplates d) of
        None \<Rightarrow> None
      | Some t \<Rightarrow>
          Some (t, take 1 (filter (\<lambda>s. step_workflowTemplateId s = tpl_id t \<and> step_stepOrder s = 1)
                             (workflowSteps d))))"

text \<open>
  \<open>db.query.userRoles.findFirst({where: eq(workflowSteps.roleId, firstStep.roleId),
  with: {user: true}})\<close>. The predicate names the column \<open>role_id\<close> through the table
  object \<open>workflowSteps\<close>; the relational query evaluates a \<open>where\<close> on the rows of the
  table it queries, here \<open>userRoles\<close>, whose column of that name is \<open>ur_roleId\<close>.
  Relation \<open>user\<close>: the user whose identity is the row's \<open>userId\<close>.
\<close>

definition findFirst_userRole_with_user ::
  "int \<Rightarrow> db \<Rightarrow> (userRole \<times> user option) option" where
  "findFirst_userRole_with_user roleId d =
     (case find (\<lambda>r. ur_roleId r = roleId) (userRoles d) of
        None \<Rightarrow> None
      | Some r \<Rightarrow> Some (r, find (\<lambda>u. user_id u = ur_userId r) (users d)))"

text \<open>
  \<open>tx.insert(workflowInstances).values({...}).returning()\<close>: \<open>entity_type\<close> is
  \<open>varchar(50)\<close>, \<open>entity_id\<close> is \<open>integer\<close>, \<open>status\<close> is \<open>varchar(20)\<close>. The
  template, the step and the assignee were read from the store in the same call, so their
  references hold.
\<close>

definition insert_workflowInstances ::
  "timestamp \<Rightarrow> int \<Rightarrow> int \<Rightarrow> string \<Rightarrow> string \<Rightarrow> int \<Rightarrow> string \<Rightarrow> db
     \<Rightarrow> workflowInstance list outcome" where
  "insert_workflowInstances now templateId stepId assigneeId entityType entityId status d =
     (if int32 entityId
      then
        (case nextval (seq_workflowInstances (sequences d)) of
           None \<Rightarrow> (Inl StoreError, d)
         | Some i \<Rightarrow>
             (let d1 = d\<lparr>sequences := (sequences d)\<lparr>seq_workflowInstances := i\<rparr>\<rparr>;
                  row = \<lparr>inst_id = i, inst_workflowTemplateId = templateId,
                         inst_currentStepId = stepId, inst_currentAssigneeId = Some assigneeId,
                         inst_entityType = entityType, inst_entityId = entityId,
                         inst_status = status, inst_createdAt = now, inst_completedAt = None\<rparr>
              in if varchar 50 entityType \<and> varchar 20 status
                    \<and> i \<notin> set (map inst_id (workflowInstances d))
                 then (Inr [row], d1\<lparr>workflowInstances := workflowInstances d @ [row]\<rparr>)
                 else (Inl StoreError, d1)))
      else (Inl StoreError, d))"

text \<open>
  \<open>tx.insert(workflowStepAssignments).values({...})\<close>: \<open>status\<close> is \<open>varchar(20)\<close>;
  the instance, the step and the assignee are those of the call.
\<close>

definition insert_workflowStepAssignments ::
  "timestamp \<Rightarrow> int \<Rightarrow> int \<Rightarrow> string \<Rightarrow> string \<Rightarrow> db \<Rightarrow> unit outcome" where
  "insert_workflowStepAssignments now instanceId stepId assigneeId status d =
     (case nextval (seq_workflowStepAssignments (sequences d)) of
        None \<Rightarrow> (Inl StoreError, d)
      | Some i \<Rightarrow>
          (let d1 = d\<lparr>sequences := (sequences d)\<lparr>seq_workflowStepAssignments := i\<rparr>\<rparr>;
               row = \<lparr>asg_id = i, asg_workflowInstanceId = instanceId, asg_stepId = stepId,
                      asg_assigneeId = assigneeId, asg_status = status, asg_assignedAt = now,
                      asg_completedAt = None\<rparr>
           in if varchar 20 status \<and> i \<notin> set (map asg_id (workflowStepAssignments d))
              then (Inr (), d1\<lparr>workflowStepAssignments := workflowStepAssignments d @ [row]\<rparr>)
              else (Inl StoreError, d1)))"

text \<open>
  The two queries of \<open>startWorkflow\<close> go through \<open>db\<close>, not \<open>tx\<close>: they read the store
  as it is when the call starts. The first compares the \<open>integer\<close> column \<open>id\<close> with
  \<open>templateId\<close>, bound as a parameter of the column's type: the store refuses one outside
  the 32 bits, and the query throws.
\<close>

definition startWorkflow ::
  "timestamp \<Rightarrow> startWorkflowInput \<Rightarrow> db \<Rightarrow> workflowInstance outcome" where
  "startWorkflow now input d =
     transaction (\<lambda>tx.
       if \<not> int32 (sw_templateId input) then (Inl StoreError, tx)
       else
       case findFirst_template_with_steps (sw_templateId input) d of
         None \<Rightarrow> (Inl TemplateNotFoundOrNoSteps, tx)
       | Some (template, steps) \<Rightarrow>
           if length steps = 0 then (Inl TemplateNotFoundOrNoSteps, tx)
           else
             (case steps of
                [] \<Rightarrow> (Inl NoFirstStep, tx)
              | firstStep # _ \<Rightarrow>
                  (case findFirst_userRole_with_user (step_roleId firstStep) d of
                     None \<Rightarrow> (Inl NoEligibleUsers, tx)
                   | Some (_, None) \<Rightarrow> (Inl NoEligibleUsers, tx)
                   | Some (_, Some eligibleUser) \<Rightarrow>
                       (case insert_workflowInstances now (tpl_id template) (step_id firstStep)
                               (user_id eligibleUser) (sw_entityType input) (sw_entityId input)
                               ''ACTIVE'' tx of
                          (Inl e, tx1) \<Rightarrow> (Inl e, tx1)
                        | (Inr [], tx1) \<Rightarrow> (Inl InstanceNotCreated, tx1)
                        | (Inr (instance # _), tx1) \<Rightarrow>
                            (case insert_workflowStepAssignments now (inst_id instance)
                                    (step_id firstStep) (user_id eligibleUser) ''PENDING'' tx1 of
                               (Inl e, tx2) \<Rightarrow> (Inl e, tx2)
                             | (Inr _, tx2) \<Rightarrow> (Inr instance, tx2)))))) d"

section \<open>\<open>takeAction\<close>\<close>

record takeActionInput =
  ta_instanceId :: int
  ta_userId :: string
  ta_actionType :: actionType
  ta_comments :: "string option"
  ta_dataModifications :: "json option"

text \<open>
  \<open>tx.query.workflowInstances.findFirst({where: eq(workflowInstances.id, instanceId),
  with: {currentStep: {with: {fromTransitions: true}}}})\<close>. The query builder needs the
  columns of the relations \<open>workflowInstances.currentStep\<close> and, inside it,
  \<open>workflowSteps.fromTransitions\<close>; where it finds none it throws, and no statement is
  sent. With the columns, the result is the instance row of that identity, its current
  step (\<open>null\<close> when no step row is related) and the transitions related to that step, in
  the order of the table. A row is related to another when the columns of the relation
  hold equal values, none of them \<open>null\<close>.
\<close>

fun step_column :: "string \<Rightarrow> workflowStep \<Rightarrow> int option" where
  "step_column c s =
     (if c = ''id'' then Some (step_id s)
      else if c = ''workflowTemplateId'' then Some (step_workflowTemplateId s)
      else if c = ''stepOrder'' then Some (step_stepOrder s)
      else if c = ''roleId'' then Some (step_roleId s)
      else if c = ''rejectionStepId'' then step_rejectionStepId s
      else None)"

fun transition_column :: "string \<Rightarrow> workflowStepTransition \<Rightarrow> int option" where
  "transition_column c t =
     (if c = ''id'' then Some (tr_id t)
      else if c = ''fromStepId'' then Some (tr_fromStepId t)
      else if c = ''toStepId'' then Some (tr_toStepId t)
      else None)"

definition related ::
  "string list \<times> string list \<Rightarrow> workflowStep \<Rightarrow> workflowStepTransition \<Rightarrow> bool" where
  "related columns s t =
     (list_all (\<lambda>c. step_column c s \<noteq> None) (fst columns)
      \<and> map (\<lambda>c. step_column c s) (fst columns) = map (\<lambda>c. transition_column c t) (snd columns))"

definition findFirst_instance_with_currentStep ::
  "int \<Rightarrow> db
     \<Rightarrow> error + (workflowInstance \<times> (workflowStep \<times> workflowStepTransition list) option) option"
  where
  "findFirst_instance_with_currentStep instanceId d =
     (case relationColumns WorkflowInstances ''currentStep'' of
        Inl e \<Rightarrow> Inl e
      | Inr currentStepColumns \<Rightarrow>
          (case relationColumns WorkflowSteps ''fromTransitions'' of
             Inl e \<Rightarrow> Inl e
           | Inr fromTransitionsColumns \<Rightarrow>
               Inr (case find (\<lambda>i. inst_id i = instanceId) (workflowInstances d) of
                      None \<Rightarrow> None
                    | Some i \<Rightarrow>
                        Some (i,
                          (case find (\<lambda>s. step_id s = inst_currentStepId i) (workflowSteps d) of
                             None \<Rightarrow> None
                           | Some s \<Rightarrow>
                               Some (s, filter (related fromTransitionsColumns s)
                                          (workflowStepTransitions d)))))))"

text \<open>
  \<open>tx.insert(workflowActions).values({...}).returning()\<close>. The action row's instance,
  step and user are read from the instance row, whose columns reference them.
\<close>

definition insert_workflowActions ::
  "timestamp \<Rightarrow> int \<Rightarrow> int \<Rightarrow> string \<Rightarrow> actionType \<Rightarrow> string option \<Rightarrow> json option \<Rightarrow> db
     \<Rightarrow> workflowAction list outcome" where
  "insert_workflowActions now instanceId stepId userId actionType comments dataModifications d =
     (case nextval (seq_workflowActions (sequences d)) of
        None \<Rightarrow> (Inl StoreError, d)
      | Some i \<Rightarrow>
          (let d1 = d\<lparr>sequences := (sequences d)\<lparr>seq_workflowActions := i\<rparr>\<rparr>;
               row = \<lparr>act_id = i, act_workflowInstanceId = instanceId, act_stepId = stepId,
                      act_userId = userId, act_actionType = actionType, act_comments = comments,
                      act_dataModifications = dataModifications, act_createdAt = now\<rparr>
           in if i \<notin> set (map act_id (workflowActions d))
              then (Inr [row], d1\<lparr>workflowActions := workflowActions d @ [row]\<rparr>)
              else (Inl StoreError, d1)))"

subsection \<open>The handlers, which the repository does not define\<close>

text \<open>
  \<open>takeAction\<close> calls \<open>handleRejection(instance, rejectionStepId)\<close> and
  \<open>handleApproval(instance, fromTransitions)\<close>; neither file of the repository defines or
  imports them. They are modelled from sections 4.3 and 4.4 of the specification.
\<close>

text \<open>
  Modelled from the spec: the Assignment Resolver \<open>resolveAssignee(roleId)\<close> of section
  4.3, missing from the source. Any user holding the role is eligible, the first one found
  is taken, and the call fails with \<open>NoEligibleAssigneeError\<close> if the role has no holder.
\<close>

definition resolveAssignee :: "int \<Rightarrow> db \<Rightarrow> string outcome" where
  "resolveAssignee roleId d =
     (case find (\<lambda>r. ur_roleId r = roleId) (userRoles d) of
        None \<Rightarrow> (Inl (SpecError NoEligibleAssigneeError), d)
      | Some r \<Rightarrow> (Inr (ur_userId r), d))"

text \<open>
  Modelled from the spec: how a decision \<open>Advance(step)\<close> or \<open>RejectTo(step)\<close> of section
  4.4 is applied, missing from the source. The destination step is looked up
  (\<open>NotFoundError\<close> if it does not exist), an assignee is resolved for its role, the
  instance's current step and current assignee are set, the \<open>PENDING\<close> assignment rows of
  the step being left are marked \<open>COMPLETED\<close> with completion time now, and a new
  \<open>PENDING\<close> assignment row is created for the destination step (section 4.3).
\<close>

definition moveInstance :: "timestamp \<Rightarrow> workflowInstance \<Rightarrow> int \<Rightarrow> db \<Rightarrow> workflowInstance outcome"
  where
  "moveInstance now instance toStepId d =
     (case find (\<lambda>s. step_id s = toStepId) (workflowSteps d) of
        None \<Rightarrow> (Inl (SpecError NotFoundError), d)
      | Some toStep \<Rightarrow>
          (case resolveAssignee (step_roleId toStep) d of
             (Inl e, d1) \<Rightarrow> (Inl e, d1)
           | (Inr assignee, d1) \<Rightarrow>
               (let moved = instance\<lparr>inst_currentStepId := step_id toStep,
                                      inst_currentAssigneeId := Some assignee\<rparr>;
                    left = map (\<lambda>a. if asg_workflowInstanceId a = inst_id instance
                                        \<and> asg_stepId a = inst_currentStepId instance
                                        \<and> asg_status a = ''PENDING''
                                     then a\<lparr>asg_status := ''COMPLETED'', asg_completedAt := Some now\<rparr>
                                     else a)
                             (workflowStepAssignments d1);
                    d2 = d1\<lparr>workflowInstances :=
                               map (\<lambda>i. if inst_id i = inst_id instance then moved else i)
                                   (workflowInstances d1),
                            workflowStepAssignments := left\<rparr>
                in (case insert_workflowStepAssignments now (inst_id instance) (step_id toStep)
                           assignee ''PENDING'' d2 of
                      (Inl e, d3) \<Rightarrow> (Inl e, d3)
                    | (Inr _, d3) \<Rightarrow> (Inr moved, d3)))))"

text \<open>
  Modelled from the spec: \<open>handleRejection\<close>, missing from the source. Section 4.4, REJECT
  with a rejection target: the result is \<open>RejectTo(target)\<close>, the instance stays \<open>ACTIVE\<close>,
  its current step becomes the target and a new assignment is resolved for the target's
  role.
\<close>

definition handleRejection ::
  "timestamp \<Rightarrow> workflowInstance \<Rightarrow> int \<Rightarrow> db \<Rightarrow> workflowInstance outcome" where
  "handleRejection now instance rejectionStepId d = moveInstance now instance rejectionStepId d"

text \<open>
  Modelled from the spec: when a transition is satisfied (section 4.4). It has no condition,
  or its condition predicate, keyed by \<open>conditionType\<close> and interpreted against
  \<open>conditionValue\<close> and the instance, is true. The predicates themselves are left open by
  the specification; they are the parameter \<open>evalCondition\<close>.
\<close>

definition satisfied ::
  "(string \<Rightarrow> json option \<Rightarrow> workflowInstance \<Rightarrow> bool) \<Rightarrow> workflowInstance
     \<Rightarrow> workflowStepTransition \<Rightarrow> bool" where
  "satisfied evalCondition instance t =
     (case tr_conditionType t of
        None \<Rightarrow> True
      | Some conditionType \<Rightarrow> evalCondition conditionType (tr_conditionValue t) instance)"

text \<open>
  Modelled from the spec: \<open>handleApproval\<close>, missing from the source. Section 4.4, APPROVE:
  the outgoing transitions are evaluated in ascending order of identity; the first
  satisfied one gives \<open>Advance(toStep)\<close>; if none is satisfied the result is \<open>Terminal\<close>
  with outcome \<open>COMPLETED\<close>: the status becomes \<open>COMPLETED\<close>, the current assignee is
  cleared and the completion time is set. The specification does not say what becomes of
  the assignment rows on a terminal decision; they are left as they are.
\<close>

definition handleApproval ::
  "(string \<Rightarrow> json option \<Rightarrow> workflowInstance \<Rightarrow> bool) \<Rightarrow> timestamp \<Rightarrow> workflowInstance
     \<Rightarrow> workflowStepTransition list \<Rightarrow> db \<Rightarrow> workflowInstance outcome" where
  "handleApproval evalCondition now instance transitions d =
     (case find (satisfied evalCondition instance) (sort_key tr_id transitions) of
        Some t \<Rightarrow> moveInstance now instance (tr_toStepId t) d
      | None \<Rightarrow>
          (let closed = instance\<lparr>inst_status := ''COMPLETED'', inst_currentAssigneeId := None,
                                  inst_completedAt := Some now\<rparr>
           in (Inr closed,
               d\<lparr>workflowInstances :=
                    map (\<lambda>i. if inst_id i = inst_id instance then closed else i)
                        (workflowInstances d)\<rparr>)))"

subsection \<open>The procedure\<close>

text \<open>
  The query comes first; what it throws ends the call. The comparison
  \<open>instance.currentAssigneeId !== input.userId\<close> is between a nullable text and a text.
  The test \<open>instance.currentStep?.rejectionStepId\<close> is for a truthy value: the step
  was loaded, its rejection step is not \<open>null\<close> and not \<open>0\<close>. The procedure returns
  the instance as it was loaded.
\<close>

definition truthy_rejectionStepId ::
  "(workflowStep \<times> workflowStepTransition list) option \<Rightarrow> int option" where
  "truthy_rejectionStepId currentStep =
     (case currentStep of
        None \<Rightarrow> None
      | Some (s, _) \<Rightarrow>
          (case step_rejectionStepId s of
             None \<Rightarrow> None
           | Some r \<Rightarrow> if r = 0 then None else Some r))"

definition takeAction ::
  "(string \<Rightarrow> json option \<Rightarrow> workflowInstance \<Rightarrow> bool) \<Rightarrow> timestamp \<Rightarrow> takeActionInput \<Rightarrow> db
     \<Rightarrow> workflowInstance outcome" where
  "takeAction evalCondition now input =
     transaction (\<lambda>tx.
       case findFirst_instance_with_currentStep (ta_instanceId input) tx of
         Inl e \<Rightarrow> (Inl e, tx)
       | Inr None \<Rightarrow> (Inl InstanceNotFound, tx)
       | Inr (Some (instance, currentStep)) \<Rightarrow>
           if inst_currentAssigneeId instance \<noteq> Some (ta_userId input)
           then (Inl NotAuthorized, tx)
           else
             (case insert_workflowActions now (inst_id instance) (inst_currentStepId instance)
                     (ta_userId input) (ta_actionType input) (ta_comments input)
                     (ta_dataModifications input) tx of
                (Inl e, tx1) \<Rightarrow> (Inl e, tx1)
              | (Inr action, tx1) \<Rightarrow>
                  (case (if ta_actionType input = REJECT then truthy_rejectionStepId currentStep
                         else None) of
                     Some rejectionStepId \<Rightarrow> handleRejection now instance rejectionStepId tx1
                   | None \<Rightarrow>
                       if ta_actionType input = APPROVE then
                         handleApproval evalCondition now instance
                           (case currentStep of None \<Rightarrow> [] | Some (_, fromTransitions) \<Rightarrow> fromTransitions)
                           tx1
                       else (Inr instance, tx1))))"

section \<open>\<open>getAssignedWorkflows\<close>\<close>

datatype instanceStatus = ACTIVE | COMPLETED | REJECTED

fun statusText :: "instanceStatus \<Rightarrow> string" where
  "statusText ACTIVE = ''ACTIVE''"
| "statusText COMPLETED = ''COMPLETED''"
| "statusText REJECTED = ''REJECTED''"

record getAssignedWorkflowsInput =
  gaw_userId :: string
  gaw_status :: "instanceStatus option"

record assignedWorkflow =
  aw_instance :: workflowInstance
  aw_template :: "workflowTemplate option"
  aw_currentStep :: "workflowStep option"
  aw_currentAssignee :: "user option"

text \<open>
  \<open>with: {template: true, currentStep: true, currentAssignee: true}\<close>: each relation is
  the row the instance's column points to, \<open>null\<close> when there is none.
\<close>

definition with_relations :: "db \<Rightarrow> workflowInstance \<Rightarrow> assignedWorkflow" where
  "with_relations d i =
     \<lparr>aw_instance = i,
      aw_template = find (\<lambda>t. tpl_id t = inst_workflowTemplateId i) (workflowTemplates d),
      aw_currentStep = find (\<lambda>s. step_id s = inst_currentStepId i) (workflowSteps d),
      aw_currentAssignee =
        (case inst_currentAssigneeId i of
           None \<Rightarrow> None
         | Some a \<Rightarrow> find (\<lambda>u. user_id u = a) (users d))\<rparr>"

text \<open>
  \<open>findMany({where: and(eq(currentAssigneeId, userId), status ? eq(status, status) :
  undefined), with: ..., orderBy: [createdAt]})\<close>: a query, nothing is written. An
  \<open>undefined\<close> conjunct of \<open>and\<close> is dropped; the order is ascending.
\<close>

definition getAssignedWorkflows :: "getAssignedWorkflowsInput \<Rightarrow> db \<Rightarrow> assignedWorkflow list" where
  "getAssignedWorkflows input d =
     map (with_relations d)
       (sort_key inst_createdAt
          (filter (\<lambda>i. inst_currentAssigneeId i = Some (gaw_userId input)
                       \<and> (case gaw_status input of
                            None \<Rightarrow> True
                          | Some status \<Rightarrow> inst_status i = statusText status))
             (workflowInstances d)))"

section \<open>Rows and the inputs they came from\<close>

text \<open>
  The supplied fields of a step row and of a transition row; the template row that
  \<open>createWorkflowTemplate\<close> inserts; and the step rows and transition rows that the
  store makes of a list of supplied steps and transitions, given the last value of the
  table's sequence. They are used to state what a call persisted.
\<close>

definition supplied_step :: "workflowStep \<Rightarrow> stepInput" where
  "supplied_step r =
     \<lparr>si_name = step_name r, si_stepOrder = step_stepOrder r, si_roleId = step_roleId r,
      si_isMandatory = step_isMandatory r, si_canModify = step_canModify r,
      si_rejectionStepId = step_rejectionStepId r\<rparr>"

definition supplied_transition :: "workflowStepTransition \<Rightarrow> transitionInput" where
  "supplied_transition r =
     \<lparr>ti_fromStepId = tr_fromStepId r, ti_toStepId = tr_toStepId r,
      ti_conditionType = tr_conditionType r, ti_conditionValue = tr_conditionValue r\<rparr>"

definition new_template :: "timestamp \<Rightarrow> createWorkflowTemplateInput \<Rightarrow> db \<Rightarrow> workflowTemplate" where
  "new_template now input d =
     \<lparr>tpl_id = seq_workflowTemplates (sequences d) + 1, tpl_name = cwt_name input,
      tpl_description = Some (cwt_description input), tpl_isActive = True, tpl_createdAt = now\<rparr>"

fun step_rows :: "timestamp \<Rightarrow> int \<Rightarrow> int \<Rightarrow> stepInput list \<Rightarrow> workflowStep list" where
  "step_rows now templateId lastValue [] = []"
| "step_rows now templateId lastValue (step # rest) =
     \<lparr>step_id = lastValue + 1, step_workflowTemplateId = templateId, step_name = si_name step,
      step_stepOrder = si_stepOrder step, step_roleId = si_roleId step,
      step_isMandatory = si_isMandatory step, step_canModify = si_canModify step,
      step_rejectionStepId = si_rejectionStepId step, step_createdAt = now\<rparr>
     # step_rows now templateId (lastValue + 1) rest"

fun transition_rows :: "timestamp \<Rightarrow> int \<Rightarrow> transitionInput list \<Rightarrow> workflowStepTransition list"
  where
  "transition_rows date lastValue [] = []"
| "transition_rows date lastValue (transition # rest) =
     \<lparr>tr_id = lastValue + 1, tr_fromStepId = ti_fromStepId transition,
      tr_toStepId = ti_toStepId transition, tr_conditionType = ti_conditionType transition,
      tr_conditionValue = ti_conditionValue transition, tr_createdAt = date\<rparr>
     # transition_rows date (lastValue + 1) rest"

text \<open>
  What makes the store accept the rows of a \<open>createWorkflowTemplate\<close> call. A step is
  accepted when its name fits \<open>varchar(255)\<close>, its numbers fit 32 bits and its role is
  one of the store's. A transition is accepted when its endpoints fit 32 bits, its
  condition type fits \<open>varchar(50)\<close>, and each endpoint is the identity of a stored step
  or of one of the \<open>n\<close> steps that the call creates after the last value of the
  sequence. \<open>issued\<close> says that the sequences are ahead of the tables: no identity of a
  table is beyond the last value of its sequence, so that the next value is free (a
  store without rows is so, and the router keeps it so; see the lemmas \<open>issued_empty\<close>,
  \<open>createWorkflowTemplate_issued\<close>, \<open>startWorkflow_issued\<close> and \<open>takeAction_issued\<close>).
  \<open>accepted\<close> puts these together for an input, with the room left in each sequence and
  with the condition that a call with steps has a transition; \<open>created\<close> is the store
  after such a call.
\<close>

definition step_accepted :: "int list \<Rightarrow> stepInput \<Rightarrow> bool" where
  "step_accepted roleIds step \<longleftrightarrow>
     varchar 255 (si_name step) \<and> int32 (si_stepOrder step) \<and> int32 (si_roleId step)
     \<and> (case si_rejectionStepId step of None \<Rightarrow> True | Some r \<Rightarrow> int32 r)
     \<and> si_roleId step \<in> set roleIds"

definition transition_accepted :: "int list \<Rightarrow> int \<Rightarrow> int \<Rightarrow> transitionInput \<Rightarrow> bool" where
  "transition_accepted stepIds lastValue n transition \<longleftrightarrow>
     int32 (ti_fromStepId transition) \<and> int32 (ti_toStepId transition)
     \<and> (case ti_conditionType transition of None \<Rightarrow> True | Some c \<Rightarrow> varchar 50 c)
     \<and> (ti_fromStepId transition \<in> set stepIds
          \<or> lastValue < ti_fromStepId transition \<and> ti_fromStepId transition \<le> lastValue + n)
     \<and> (ti_toStepId transition \<in> set stepIds
          \<or> lastValue < ti_toStepId transition \<and> ti_toStepId transition \<le> lastValue + n)"

definition issued :: "db \<Rightarrow> bool" where
  "issued d \<longleftrightarrow>
     list_all (\<lambda>r. tpl_id r \<le> seq_workflowTemplates (sequences d)) (workflowTemplates d)
     \<and> list_all (\<lambda>r. step_id r \<le> seq_workflowSteps (sequences d)) (workflowSteps d)
     \<and> list_all (\<lambda>r. tr_id r \<le> seq_workflowStepTransitions (sequences d))
          (workflowStepTransitions d)
     \<and> list_all (\<lambda>r. inst_id r \<le> seq_workflowInstances (sequences d)) (workflowInstances d)
     \<and> list_all (\<lambda>r. asg_id r \<le> seq_workflowStepAssignments (sequences d))
          (workflowStepAssignments d)
     \<and> list_all (\<lambda>r. act_id r \<le> seq_workflowActions (sequences d)) (workflowActions d)"

definition accepted :: "createWorkflowTemplateInput \<Rightarrow> db \<Rightarrow> bool" where
  "accepted input d \<longleftrightarrow>
     varchar 255 (cwt_name input)
     \<and> seq_workflowTemplates (sequences d) + 1 \<le> 2147483647
     \<and> (cwt_steps input = []
          \<or> list_all (step_accepted (map role_id (roles d))) (cwt_steps input)
            \<and> seq_workflowSteps (sequences d) + int (length (cwt_steps input)) \<le> 2147483647
            \<and> cwt_transitions input \<noteq> []
            \<and> list_all (transition_accepted (map step_id (workflowSteps d))
                          (seq_workflowSteps (sequences d)) (int (length (cwt_steps input))))
                 (cwt_transitions input)
            \<and> seq_workflowStepTransitions (sequences d) + int (length (cwt_transitions input))
                 \<le> 2147483647)"

definition created :: "timestamp \<Rightarrow> timestamp \<Rightarrow> createWorkflowTemplateInput \<Rightarrow> db \<Rightarrow> db" where
  "created now date input d =
     d\<lparr>sequences := (sequences d)
          \<lparr>seq_workflowTemplates := seq_workflowTemplates (sequences d) + 1,
           seq_workflowSteps := seq_workflowSteps (sequences d) + int (length (cwt_steps input)),
           seq_workflowStepTransitions :=
             (if cwt_steps input = [] then seq_workflowStepTransitions (sequences d)
              else seq_workflowStepTransitions (sequences d)
                     + int (length (cwt_transitions input)))\<rparr>,
       workflowTemplates := workflowTemplates d @ [new_template now input d],
       workflowSteps := workflowSteps d
         @ step_rows now (tpl_id (new_template now input d)) (seq_workflowSteps (sequences d))
             (cwt_steps input),
       workflowStepTransitions :=
         (if cwt_steps input = [] then workflowStepTransitions d
          else workflowStepTransitions d
                 @ transition_rows date (seq_workflowStepTransitions (sequences d))
                     (cwt_transitions input))\<rparr>"

text \<open>
  One state of the sequences is not behind another: no sequence has gone back.
\<close>

definition not_behind :: "identity_sequences \<Rightarrow> identity_sequences \<Rightarrow> bool" where
  "not_behind q q' \<longleftrightarrow>
     seq_workflowTemplates q \<le> seq_workflowTemplates q'
     \<and> seq_workflowSteps q \<le> seq_workflowSteps q'
     \<and> seq_workflowStepTransitions q \<le> seq_workflowStepTransitions q'
     \<and> seq_workflowInstances q \<le> seq_workflowInstances q'
     \<and> seq_workflowStepAssignments q \<le> seq_workflowStepAssignments q'
     \<and> seq_workflowActions q \<le> seq_workflowActions q'"

text \<open>
  The steps of order 1 of a template, in the order of the table: the candidates for the
  entry step that \<open>startWorkflow\<close> loads. What makes the store accept the rows of a
  \<open>startWorkflow\<close> call: the numbers fit 32 bits, the entity type fits \<open>varchar(50)\<close>
  and the two sequences have room. The instance row and the assignment row that the call
  inserts for a step and an assignee.
\<close>

definition entry_steps :: "int \<Rightarrow> db \<Rightarrow> workflowStep list" where
  "entry_steps templateId d =
     filter (\<lambda>s. step_workflowTemplateId s = templateId \<and> step_stepOrder s = 1) (workflowSteps d)"


definition new_instance ::
  "timestamp \<Rightarrow> startWorkflowInput \<Rightarrow> int \<Rightarrow> string \<Rightarrow> db \<Rightarrow> workflowInstance" where
  "new_instance now input stepId assigneeId d =
     \<lparr>inst_id = seq_workflowInstances (sequences d) + 1,
      inst_workflowTemplateId = sw_templateId input, inst_currentStepId = stepId,
      inst_currentAssigneeId = Some assigneeId, inst_entityType = sw_entityType input,
      inst_entityId = sw_entityId input, inst_status = ''ACTIVE'', inst_createdAt = now,
      inst_completedAt = None\<rparr>"

definition new_assignment :: "timestamp \<Rightarrow> int \<Rightarrow> string \<Rightarrow> db \<Rightarrow> workflowStepAssignment" where
  "new_assignment now stepId assigneeId d =
     \<lparr>asg_id = seq_workflowStepAssignments (sequences d) + 1,
      asg_workflowInstanceId = seq_workflowInstances (sequences d) + 1, asg_stepId = stepId,
      asg_assigneeId = assigneeId, asg_status = ''PENDING'', asg_assignedAt = now,
      asg_completedAt = None\<rparr>"

text \<open>
  The condition of \<open>getAssignedWorkflows\<close> on an instance row.
\<close>

definition assigned_to :: "getAssignedWorkflowsInput \<Rightarrow> workflowInstance \<Rightarrow> bool" where
  "assigned_to input i =
     (inst_currentAssigneeId i = Some (gaw_userId input)
      \<and> (case gaw_status input of
           None \<Rightarrow> True
         | Some status \<Rightarrow> inst_status i = statusText status))"

section \<open>A scenario\<close>

text \<open>
  The template of the specification's scenario: steps \<open>S1\<close> (order 1, role 1, rejection
  step \<open>S1\<close>) and \<open>S2\<close> (order 2, role 2, no rejection step), one transition without
  condition from \<open>S1\<close> to \<open>S2\<close>; user \<open>u1\<close> holds role 1 and user \<open>u2\<close> role 2.
  Neither step allows modification. The sequences have issued the identities in the
  tables.
\<close>

definition S1 :: workflowStep where
  "S1 = \<lparr>step_id = 1, step_workflowTemplateId = 1, step_name = ''S1'', step_stepOrder = 1,
         step_roleId = 1, step_isMandatory = True, step_canModify = False,
         step_rejectionStepId = Some 1, step_createdAt = 1\<rparr>"

definition S2 :: workflowStep where
  "S2 = \<lparr>step_id = 2, step_workflowTemplateId = 1, step_name = ''S2'', step_stepOrder = 2,
         step_roleId = 2, step_isMandatory = True, step_canModify = False,
         step_rejectionStepId = None, step_createdAt = 1\<rparr>"

definition T :: workflowTemplate where
  "T = \<lparr>tpl_id = 1, tpl_name = ''T'', tpl_description = Some ''expense approval'',
        tpl_isActive = True, tpl_createdAt = 1\<rparr>"

definition S1_to_S2 :: workflowStepTransition where
  "S1_to_S2 = \<lparr>tr_id = 1, tr_fromStepId = 1, tr_toStepId = 2, tr_conditionType = None,
               tr_conditionValue = None, tr_createdAt = 1\<rparr>"

definition last_values :: "int \<Rightarrow> int \<Rightarrow> int \<Rightarrow> int \<Rightarrow> int \<Rightarrow> int \<Rightarrow> identity_sequences" where
  "last_values templates steps transitions instances assignments actions =
     \<lparr>seq_workflowTemplates = templates, seq_workflowSteps = steps,
      seq_workflowStepTransitions = transitions, seq_workflowInstances = instances,
      seq_workflowStepAssignments = assignments, seq_workflowActions = actions\<rparr>"

definition template_db :: db where
  "template_db =
     \<lparr>users = [\<lparr>user_id = ''u1'', user_name = ''Ann''\<rparr>, \<lparr>user_id = ''u2'', user_name = ''Bob''\<rparr>],
      roles = [\<lparr>role_id = 1, role_name = ''R1'', role_description = None, role_createdAt = 0\<rparr>,
               \<lparr>role_id = 2, role_name = ''R2'', role_description = None, role_createdAt = 0\<rparr>],
      userRoles = [\<lparr>ur_userId = ''u1'', ur_roleId = 1, ur_isPrimary = True, ur_createdAt = 0\<rparr>,
                   \<lparr>ur_userId = ''u2'', ur_roleId = 2, ur_isPrimary = True, ur_createdAt = 0\<rparr>],
      workflowTemplates = [T],
      workflowSteps = [S1, S2],
      workflowStepTransitions = [S1_to_S2],
      workflowInstances = [],
      workflowStepAssignments = [],
      workflowActions = [],
      sequences = last_values 1 2 1 0 0 0\<rparr>"

text \<open>
  Instances of it: \<open>I1\<close> at \<open>S1\<close> with \<open>u1\<close>, \<open>I2\<close> at \<open>S2\<close> with \<open>u2\<close>, both
  \<open>ACTIVE\<close>; \<open>I3\<close> with status \<open>COMPLETED\<close> whose assignee column still holds \<open>u2\<close>;
  and \<open>I4\<close>, \<open>COMPLETED\<close> with its assignee cleared and its completion time set.
\<close>

definition I1 :: workflowInstance where
  "I1 = \<lparr>inst_id = 1, inst_workflowTemplateId = 1, inst_currentStepId = 1,
         inst_currentAssigneeId = Some ''u1'', inst_entityType = ''invoice'', inst_entityId = 42,
         inst_status = ''ACTIVE'', inst_createdAt = 2, inst_completedAt = None\<rparr>"

definition I2 :: workflowInstance where
  "I2 = \<lparr>inst_id = 2, inst_workflowTemplateId = 1, inst_currentStepId = 2,
         inst_currentAssigneeId = Some ''u2'', inst_entityType = ''invoice'', inst_entityId = 43,
         inst_status = ''ACTIVE'', inst_createdAt = 3, inst_completedAt = None\<rparr>"

definition I3 :: workflowInstance where
  "I3 = \<lparr>inst_id = 3, inst_workflowTemplateId = 1, inst_currentStepId = 2,
         inst_currentAssigneeId = Some ''u2'', inst_entityType = ''invoice'', inst_entityId = 44,
         inst_status = ''COMPLETED'', inst_createdAt = 4, inst_completedAt = Some 5\<rparr>"

definition I4 :: workflowInstance where
  "I4 = \<lparr>inst_id = 4, inst_workflowTemplateId = 1, inst_currentStepId = 2,
         inst_currentAssigneeId = None, inst_entityType = ''invoice'', inst_entityId = 45,
         inst_status = ''COMPLETED'', inst_createdAt = 5, inst_completedAt = Some 6\<rparr>"

definition running_db :: db where
  "running_db = template_db\<lparr>workflowInstances := [I1, I2, I3, I4],
                              sequences := last_values 1 2 1 4 0 0\<rparr>"

definition action :: "int \<Rightarrow> string \<Rightarrow> actionType \<Rightarrow> takeActionInput" where
  "action instanceId userId actionType =
     \<lparr>ta_instanceId = instanceId, ta_userId = userId, ta_actionType = actionType,
      ta_comments = None, ta_dataModifications = None\<rparr>"

definition no_condition :: "string \<Rightarrow> json option \<Rightarrow> workflowInstance \<Rightarrow> bool" where
  "no_condition conditionType conditionValue instance = False"

text \<open>
  A step like \<open>S1\<close> that allows modification, and the store with it in the place of
  \<open>S1\<close>.
\<close>

definition M1 :: workflowStep where
  "M1 = S1\<lparr>step_canModify := True\<rparr>"

definition modifiable_db :: db where
  "modifiable_db = running_db\<lparr>workflowSteps := [M1, S2]\<rparr>"

text \<open>
  Inputs of \<open>createWorkflowTemplate\<close>, the rows they produce, and a store with roles and
  users but no template.
\<close>

definition template_input ::
  "string \<Rightarrow> stepInput list \<Rightarrow> transitionInput list \<Rightarrow> createWorkflowTemplateInput" where
  "template_input name steps transitions =
     \<lparr>cwt_name = name, cwt_description = '''', cwt_steps = steps, cwt_transitions = transitions\<rparr>"

definition step_input :: "string \<Rightarrow> int \<Rightarrow> int \<Rightarrow> int option \<Rightarrow> stepInput" where
  "step_input name stepOrder roleId rejectionStepId =
     \<lparr>si_name = name, si_stepOrder = stepOrder, si_roleId = roleId, si_isMandatory = True,
      si_canModify = False, si_rejectionStepId = rejectionStepId\<rparr>"

definition edge :: "int \<Rightarrow> int \<Rightarrow> transitionInput" where
  "edge fromStepId toStepId =
     \<lparr>ti_fromStepId = fromStepId, ti_toStepId = toStepId, ti_conditionType = None,
      ti_conditionValue = None\<rparr>"

definition roles_db :: db where
  "roles_db = template_db\<lparr>workflowTemplates := [], workflowSteps := [],
                            workflowStepTransitions := [],
                            sequences := last_values 0 0 0 0 0 0\<rparr>"

definition template_row :: "int \<Rightarrow> string \<Rightarrow> timestamp \<Rightarrow> workflowTemplate" where
  "template_row i name now =
     \<lparr>tpl_id = i, tpl_name = name, tpl_description = Some '''', tpl_isActive = True,
      tpl_createdAt = now\<rparr>"

definition step_row ::
  "int \<Rightarrow> int \<Rightarrow> string \<Rightarrow> int \<Rightarrow> int \<Rightarrow> int option \<Rightarrow> timestamp \<Rightarrow> workflowStep" where
  "step_row i templateId name stepOrder roleId rejectionStepId now =
     \<lparr>step_id = i, step_workflowTemplateId = templateId, step_name = name,
      step_stepOrder = stepOrder, step_roleId = roleId, step_isMandatory = True,
      step_canModify = False, step_rejectionStepId = rejectionStepId, step_createdAt = now\<rparr>"

definition transition_row :: "int \<Rightarrow> int \<Rightarrow> int \<Rightarrow> timestamp \<Rightarrow> workflowStepTransition" where
  "transition_row i fromStepId toStepId date =
     \<lparr>tr_id = i, tr_fromStepId = fromStepId, tr_toStepId = toStepId, tr_conditionType = None,
      tr_conditionValue = None, tr_createdAt = date\<rparr>"

text \<open>
  Inputs of \<open>startWorkflow\<close> and \<open>getAssignedWorkflows\<close>, an assignment row, and the
  store with its instances in another order.
\<close>

definition start :: "int \<Rightarrow> string \<Rightarrow> int \<Rightarrow> startWorkflowInput" where
  "start templateId entityType entityId =
     \<lparr>sw_templateId = templateId, sw_entityType = entityType, sw_entityId = entityId\<rparr>"

definition assignment_row ::
  "int \<Rightarrow> int \<Rightarrow> int \<Rightarrow> string \<Rightarrow> string \<Rightarrow> timestamp \<Rightarrow> timestamp option \<Rightarrow> workflowStepAssignment" where
  "assignment_row i instanceId stepId assigneeId status assignedAt completedAt =
     \<lparr>asg_id = i, asg_workflowInstanceId = instanceId, asg_stepId = stepId,
      asg_assigneeId = assigneeId, asg_status = status, asg_assignedAt = assignedAt,
      asg_completedAt = completedAt\<rparr>"

definition assigned :: "string \<Rightarrow> instanceStatus option \<Rightarrow> getAssignedWorkflowsInput" where
  "assigned userId status = \<lparr>gaw_userId = userId, gaw_status = status\<rparr>"

definition Bob :: user where
  "Bob = \<lparr>user_id = ''u2'', user_name = ''Bob''\<rparr>"

definition shuffled_db :: db where
  "shuffled_db = template_db\<lparr>workflowInstances := [I3, I2, I1]\<rparr>"

text \<open>
  Two more transitions out of \<open>S1\<close>, stored before \<open>S1_to_S2\<close>: a loop of higher
  identity and a conditional one of lower identity.
\<close>

definition loop :: workflowStepTransition where
  "loop = transition_row 5 1 1 1"

definition guarded :: workflowStepTransition where
  "guarded = \<lparr>tr_id = 0, tr_fromStepId = 1, tr_toStepId = 1, tr_conditionType = Some ''amount'',
              tr_conditionValue = Some ''{}'', tr_createdAt = 1\<rparr>"

definition branching_db :: db where
  "branching_db = running_db\<lparr>workflowStepTransitions := [loop, guarded, S1_to_S2],
                               sequences := last_values 1 2 5 4 0 0\<rparr>"

text \<open>
  The user \<open>u1\<close>, the two role memberships, and the store without memberships.
\<close>

definition Ann :: user where
  "Ann = \<lparr>user_id = ''u1'', user_name = ''Ann''\<rparr>"

definition holds_R1 :: userRole where
  "holds_R1 = \<lparr>ur_userId = ''u1'', ur_roleId = 1, ur_isPrimary = True, ur_createdAt = 0\<rparr>"

definition holds_R2 :: userRole where
  "holds_R2 = \<lparr>ur_userId = ''u2'', ur_roleId = 2, ur_isPrimary = True, ur_createdAt = 0\<rparr>"

definition unstaffed_db :: db where
  "unstaffed_db = template_db\<lparr>userRoles := []\<rparr>"

section \<open>Unfolding the definitions\<close>

lemmas scenario_defs = S1_def S2_def T_def S1_to_S2_def last_values_def template_db_def I1_def
  I2_def I3_def I4_def running_db_def action_def no_condition_def M1_def modifiable_db_def
  template_input_def step_input_def edge_def roles_db_def template_row_def step_row_def
  transition_row_def start_def assignment_row_def assigned_def Bob_def shuffled_db_def
  loop_def guarded_def branching_db_def Ann_def holds_R1_def holds_R2_def unstaffed_db_def

lemmas createWorkflowTemplate_eval = createWorkflowTemplate_def transaction_def
  insert_workflowTemplates_def insert_workflowSteps_def insert_workflowStepTransitions_def
  Let_def nextval_def int32_def varchar_def supplied_step_def supplied_transition_def
  new_template_def

lemmas startWorkflow_defs = startWorkflow_def transaction_def findFirst_template_with_steps_def
  findFirst_userRole_with_user_def insert_workflowInstances_def
  insert_workflowStepAssignments_def Let_def nextval_def

section \<open>The relations of the queries\<close>

lemma fromTransitions_not_inferable:
  "relationColumns WorkflowSteps ''fromTransitions''
     = Inl (RelationNotInferable ''workflowSteps.fromTransitions'')"
  by (simp add: relationColumns_def normalizeRelation_def)

lemma currentStep_columns:
  "relationColumns WorkflowInstances ''currentStep'' = Inr ([''currentStepId''], [''id''])"
  by (simp add: relationColumns_def normalizeRelation_def)

lemma steps_columns:
  "relationColumns WorkflowTemplates ''steps'' = Inr ([''id''], [''workflowTemplateId''])"
  by (simp add: relationColumns_def normalizeRelation_def)

lemma user_columns:
  "relationColumns UserRoles ''user'' = Inr ([''userId''], [''id''])"
  by (simp add: relationColumns_def normalizeRelation_def)

lemma findFirst_instance_throws:
  "findFirst_instance_with_currentStep instanceId d
     = Inl (RelationNotInferable ''workflowSteps.fromTransitions'')"
  by (simp add: findFirst_instance_with_currentStep_def currentStep_columns
      fromTransitions_not_inferable)

lemma takeAction_throws:
  "takeAction evalCondition now input d
     = (Inl (RelationNotInferable ''workflowSteps.fromTransitions''), d)"
  by (simp add: takeAction_def transaction_def findFirst_instance_throws)

section \<open>The inserts of \<open>createWorkflowTemplate\<close>\<close>

lemma map_supplied_step_rows [simp]:
  "map supplied_step (step_rows now tid n steps) = steps"
  by (induction steps arbitrary: n) (simp_all add: supplied_step_def)

lemma map_supplied_transition_rows [simp]:
  "map supplied_transition (transition_rows date n ts) = ts"
  by (induction ts arbitrary: n) (simp_all add: supplied_transition_def)

lemma step_rows_template:
  "list_all (\<lambda>r. step_workflowTemplateId r = tid) (step_rows now tid n steps)"
  by (induction steps arbitrary: n) simp_all

lemma step_rows_ids:
  "i \<in> set (map step_id (step_rows now tid n steps)) \<longleftrightarrow> n < i \<and> i \<le> n + int (length steps)"
  by (induction steps arbitrary: n) auto

lemma length_step_rows [simp]: "length (step_rows now tid n steps) = length steps"
  by (induction steps arbitrary: n) simp_all

lemma length_transition_rows [simp]: "length (transition_rows date n ts) = length ts"
  by (induction ts arbitrary: n) simp_all

subsection \<open>One step\<close>

lemma insert_workflowSteps_Inr:
  assumes "insert_workflowSteps now step tid d = (Inr rows, d')"
  shows "rows = step_rows now tid (seq_workflowSteps (sequences d)) [step]
       \<and> d' = d\<lparr>sequences := (sequences d)
                      \<lparr>seq_workflowSteps := seq_workflowSteps (sequences d) + 1\<rparr>,
                  workflowSteps := workflowSteps d
                    @ step_rows now tid (seq_workflowSteps (sequences d)) [step]\<rparr>"
  using assms
  by (auto simp: insert_workflowSteps_def nextval_def Let_def split: if_splits)

lemma insert_workflowSteps_Inl:
  assumes "insert_workflowSteps now step tid d = (Inl e, d')"
  shows "e = StoreError"
  using assms
  by (auto simp: insert_workflowSteps_def Let_def split: if_splits option.splits)

lemma insert_workflowSteps_roles:
  assumes "insert_workflowSteps now step tid d = (r, d')"
  shows "roles d' = roles d"
  using assms
  by (auto simp: insert_workflowSteps_def Let_def split: if_splits option.splits)

lemma insert_workflowSteps_role_missing:
  assumes "si_roleId step \<notin> set (map role_id (roles d))"
  shows "\<exists>d'. insert_workflowSteps now step tid d = (Inl StoreError, d')"
  using assms
  by (auto simp: insert_workflowSteps_def Let_def split: if_splits option.splits)

lemma insert_workflowSteps_accepted:
  assumes "step_accepted (map role_id (roles d)) step"
      and "tid \<in> set (map tpl_id (workflowTemplates d))"
      and "list_all (\<lambda>s. step_id s \<le> seq_workflowSteps (sequences d)) (workflowSteps d)"
      and "seq_workflowSteps (sequences d) + 1 \<le> 2147483647"
  shows "insert_workflowSteps now step tid d =
           (Inr (step_rows now tid (seq_workflowSteps (sequences d)) [step]),
            d\<lparr>sequences := (sequences d)
                  \<lparr>seq_workflowSteps := seq_workflowSteps (sequences d) + 1\<rparr>,
              workflowSteps := workflowSteps d
                @ step_rows now tid (seq_workflowSteps (sequences d)) [step]\<rparr>)"
proof -
  from assms(3) have "seq_workflowSteps (sequences d) + 1 \<notin> set (map step_id (workflowSteps d))"
    by (auto simp: list_all_iff)
  with assms(1,2,4) show ?thesis
    by (simp add: insert_workflowSteps_def nextval_def step_accepted_def Let_def)
qed

subsection \<open>All the steps\<close>

lemma insert_steps_Inr:
  "insert_steps now tid steps d = (Inr news, d') \<Longrightarrow>
     news = map Some (step_rows now tid (seq_workflowSteps (sequences d)) steps)
     \<and> d' = d\<lparr>sequences := (sequences d)
                    \<lparr>seq_workflowSteps := seq_workflowSteps (sequences d) + int (length steps)\<rparr>,
                workflowSteps := workflowSteps d
                  @ step_rows now tid (seq_workflowSteps (sequences d)) steps\<rparr>"
proof (induction steps arbitrary: d news d')
  case Nil
  then show ?case by simp
next
  case (Cons step rest)
  from Cons.prems obtain rows1 d1 where
    one: "insert_workflowSteps now step tid d = (Inr rows1, d1)"
    by (auto split: prod.splits sum.splits)
  note first = insert_workflowSteps_Inr [OF one]
  from Cons.prems one first obtain news' where
    rest: "insert_steps now tid rest d1 = (Inr news', d')"
    and news: "news = map Some rows1 @ news'"
    by (auto split: prod.splits sum.splits)
  from Cons.IH [OF rest] first news show ?case
    by (simp add: add.assoc)
qed

lemma insert_steps_Inl:
  "insert_steps now tid steps d = (Inl e, d') \<Longrightarrow> e = StoreError"
proof (induction steps arbitrary: d d')
  case Nil
  then show ?case by simp
next
  case (Cons step rest)
  then show ?case
    by (auto dest: insert_workflowSteps_Inl split: prod.splits sum.splits)
qed

lemma insert_steps_role_missing:
  "\<exists>s\<in>set steps. si_roleId s \<notin> set (map role_id (roles d)) \<Longrightarrow>
     \<exists>d'. insert_steps now tid steps d = (Inl StoreError, d')"
proof (induction steps arbitrary: d)
  case Nil
  then show ?case by simp
next
  case (Cons step rest)
  show ?case
  proof (cases "insert_workflowSteps now step tid d")
    case (Pair r d1)
    show ?thesis
    proof (cases r)
      case (Inl e)
      with Pair insert_workflowSteps_Inl have "e = StoreError" by blast
      with Pair Inl show ?thesis by simp
    next
      case (Inr rows)
      with Pair insert_workflowSteps_role_missing [of step d now tid]
      have ok: "si_roleId step \<in> set (map role_id (roles d))" by auto
      from Pair have same: "roles d1 = roles d" by (rule insert_workflowSteps_roles)
      with ok Cons.prems have "\<exists>s\<in>set rest. si_roleId s \<notin> set (map role_id (roles d1))"
        by auto
      from Cons.IH [OF this] obtain d' where
        "insert_steps now tid rest d1 = (Inl StoreError, d')" by blast
      with Pair Inr show ?thesis by simp
    qed
  qed
qed

lemma insert_steps_accepted:
  assumes "list_all (step_accepted (map role_id (roles d))) steps"
      and "tid \<in> set (map tpl_id (workflowTemplates d))"
      and "list_all (\<lambda>s. step_id s \<le> seq_workflowSteps (sequences d)) (workflowSteps d)"
      and "seq_workflowSteps (sequences d) + int (length steps) \<le> 2147483647"
  shows "insert_steps now tid steps d =
           (Inr (map Some (step_rows now tid (seq_workflowSteps (sequences d)) steps)),
            d\<lparr>sequences := (sequences d)
                  \<lparr>seq_workflowSteps := seq_workflowSteps (sequences d) + int (length steps)\<rparr>,
              workflowSteps := workflowSteps d
                @ step_rows now tid (seq_workflowSteps (sequences d)) steps\<rparr>)"
  using assms
proof (induction steps arbitrary: d)
  case Nil
  then show ?case by simp
next
  case (Cons step rest)
  let ?n = "seq_workflowSteps (sequences d)"
  let ?d1 = "d\<lparr>sequences := (sequences d)\<lparr>seq_workflowSteps := ?n + 1\<rparr>,
              workflowSteps := workflowSteps d @ step_rows now tid ?n [step]\<rparr>"
  from Cons.prems have one: "insert_workflowSteps now step tid d
      = (Inr (step_rows now tid ?n [step]), ?d1)"
    by (intro insert_workflowSteps_accepted) simp_all
  have "insert_steps now tid rest ?d1 =
           (Inr (map Some (step_rows now tid (seq_workflowSteps (sequences ?d1)) rest)),
            ?d1\<lparr>sequences := (sequences ?d1)
                  \<lparr>seq_workflowSteps := seq_workflowSteps (sequences ?d1) + int (length rest)\<rparr>,
              workflowSteps := workflowSteps ?d1
                @ step_rows now tid (seq_workflowSteps (sequences ?d1)) rest\<rparr>)"
    using Cons.prems by (intro Cons.IH) (auto simp: list_all_iff)
  with one show ?case by (simp add: add.assoc)
qed

subsection \<open>The transitions\<close>

lemma store_transitions_Inr:
  "store_transitions date ts d = (Inr u, d') \<Longrightarrow>
     d' = d\<lparr>sequences := (sequences d)
               \<lparr>seq_workflowStepTransitions :=
                  seq_workflowStepTransitions (sequences d) + int (length ts)\<rparr>,
           workflowStepTransitions := workflowStepTransitions d
             @ transition_rows date (seq_workflowStepTransitions (sequences d)) ts\<rparr>"
proof (induction ts arbitrary: d)
  case Nil
  then show ?case by simp
next
  case (Cons t rest)
  let ?n = "seq_workflowStepTransitions (sequences d)"
  let ?d1 = "d\<lparr>sequences := (sequences d)\<lparr>seq_workflowStepTransitions := ?n + 1\<rparr>,
               workflowStepTransitions := workflowStepTransitions d
                 @ transition_rows date ?n [t]\<rparr>"
  from Cons.prems have "store_transitions date rest ?d1 = (Inr u, d')"
    by (auto simp: nextval_def Let_def split: if_splits)
  from Cons.IH [OF this] show ?case by (simp add: add.assoc)
qed

lemma store_transitions_Inl:
  "store_transitions date ts d = (Inl e, d') \<Longrightarrow> e = StoreError"
  by (induction ts arbitrary: d) (auto simp: Let_def split: if_splits option.splits)

lemma store_transitions_accepted:
  assumes "list_all (\<lambda>t. case ti_conditionType t of None \<Rightarrow> True | Some c \<Rightarrow> varchar 50 c) ts"
      and "list_all (\<lambda>r. tr_id r \<le> seq_workflowStepTransitions (sequences d))
             (workflowStepTransitions d)"
      and "seq_workflowStepTransitions (sequences d) + int (length ts) \<le> 2147483647"
  shows "store_transitions date ts d =
           (Inr (),
            d\<lparr>sequences := (sequences d)
                 \<lparr>seq_workflowStepTransitions :=
                    seq_workflowStepTransitions (sequences d) + int (length ts)\<rparr>,
              workflowStepTransitions := workflowStepTransitions d
                @ transition_rows date (seq_workflowStepTransitions (sequences d)) ts\<rparr>)"
  using assms
proof (induction ts arbitrary: d)
  case Nil
  then show ?case by simp
next
  case (Cons t rest)
  let ?n = "seq_workflowStepTransitions (sequences d)"
  let ?d1 = "d\<lparr>sequences := (sequences d)\<lparr>seq_workflowStepTransitions := ?n + 1\<rparr>,
               workflowStepTransitions := workflowStepTransitions d
                 @ transition_rows date ?n [t]\<rparr>"
  from Cons.prems(2) have fresh: "?n + 1 \<notin> set (map tr_id (workflowStepTransitions d))"
    by (auto simp: list_all_iff)
  have "store_transitions date rest ?d1 =
           (Inr (),
            ?d1\<lparr>sequences := (sequences ?d1)
                 \<lparr>seq_workflowStepTransitions :=
                    seq_workflowStepTransitions (sequences ?d1) + int (length rest)\<rparr>,
              workflowStepTransitions := workflowStepTransitions ?d1
                @ transition_rows date (seq_workflowStepTransitions (sequences ?d1)) rest\<rparr>)"
    using Cons.prems by (intro Cons.IH) (auto simp: list_all_iff)
  with Cons.prems fresh show ?case
    by (simp add: nextval_def Let_def add.assoc)
qed

lemma insert_workflowStepTransitions_Inr:
  assumes "insert_workflowStepTransitions date ts d = (Inr u, d')"
  shows "ts \<noteq> []
       \<and> list_all (\<lambda>t. ti_fromStepId t \<in> set (map step_id (workflowSteps d))
                        \<and> ti_toStepId t \<in> set (map step_id (workflowSteps d))) ts
       \<and> d' = d\<lparr>sequences := (sequences d)
                     \<lparr>seq_workflowStepTransitions :=
                        seq_workflowStepTransitions (sequences d) + int (length ts)\<rparr>,
                 workflowStepTransitions := workflowStepTransitions d
                   @ transition_rows date (seq_workflowStepTransitions (sequences d)) ts\<rparr>"
  using assms
  by (auto simp: insert_workflowStepTransitions_def dest: store_transitions_Inr
      split: if_splits prod.splits sum.splits)

lemma insert_workflowStepTransitions_Inl:
  assumes "insert_workflowStepTransitions date ts d = (Inl e, d')"
  shows "(e = StoreError \<or> e = EmptyValues) \<and> d' = d\<lparr>sequences := sequences d'\<rparr>"
  using assms
  by (auto simp: insert_workflowStepTransitions_def dest: store_transitions_Inl
      split: if_splits prod.splits sum.splits)

lemma insert_workflowStepTransitions_empty:
  "insert_workflowStepTransitions date [] d = (Inl EmptyValues, d)"
  by (simp add: insert_workflowStepTransitions_def)

lemma insert_workflowStepTransitions_accepted:
  assumes "ts \<noteq> []"
      and "list_all (\<lambda>t. int32 (ti_fromStepId t) \<and> int32 (ti_toStepId t)
                        \<and> (case ti_conditionType t of None \<Rightarrow> True | Some c \<Rightarrow> varchar 50 c)
                        \<and> ti_fromStepId t \<in> set (map step_id (workflowSteps d))
                        \<and> ti_toStepId t \<in> set (map step_id (workflowSteps d))) ts"
      and "list_all (\<lambda>r. tr_id r \<le> seq_workflowStepTransitions (sequences d))
             (workflowStepTransitions d)"
      and "seq_workflowStepTransitions (sequences d) + int (length ts) \<le> 2147483647"
  shows "insert_workflowStepTransitions date ts d =
           (Inr (),
            d\<lparr>sequences := (sequences d)
                 \<lparr>seq_workflowStepTransitions :=
                    seq_workflowStepTransitions (sequences d) + int (length ts)\<rparr>,
              workflowStepTransitions := workflowStepTransitions d
                @ transition_rows date (seq_workflowStepTransitions (sequences d)) ts\<rparr>)"
proof -
  from assms(2) have a: "list_all (\<lambda>t. int32 (ti_fromStepId t) \<and> int32 (ti_toStepId t)) ts"
    and b: "list_all (\<lambda>t. case ti_conditionType t of None \<Rightarrow> True | Some c \<Rightarrow> varchar 50 c) ts"
    and c: "list_all (\<lambda>t. ti_fromStepId t \<in> set (map step_id (workflowSteps d))
                        \<and> ti_toStepId t \<in> set (map step_id (workflowSteps d))) ts"
    by (auto simp: list_all_iff)
  from store_transitions_accepted [OF b assms(3,4)] assms(1) a c show ?thesis
    by (simp add: insert_workflowStepTransitions_def)
qed

subsection \<open>The template\<close>

lemma insert_workflowTemplates_Inr:
  assumes "insert_workflowTemplates now name description active d = (Inr rows, d')"
  shows "rows = [\<lparr>tpl_id = seq_workflowTemplates (sequences d) + 1, tpl_name = name,
                  tpl_description = Some description, tpl_isActive = active,
                  tpl_createdAt = now\<rparr>]
       \<and> d' = d\<lparr>sequences := (sequences d)
                     \<lparr>seq_workflowTemplates := seq_workflowTemplates (sequences d) + 1\<rparr>,
                 workflowTemplates := workflowTemplates d @ rows\<rparr>"
  using assms
  by (auto simp: insert_workflowTemplates_def nextval_def Let_def split: if_splits)

lemma insert_workflowTemplates_Inl:
  assumes "insert_workflowTemplates now name description active d = (Inl e, d')"
  shows "e = StoreError"
  using assms
  by (auto simp: insert_workflowTemplates_def Let_def split: if_splits option.splits)

lemma insert_workflowTemplates_accepted:
  assumes "varchar 255 name"
      and "seq_workflowTemplates (sequences d) + 1 \<le> 2147483647"
      and "list_all (\<lambda>r. tpl_id r \<le> seq_workflowTemplates (sequences d)) (workflowTemplates d)"
  shows "insert_workflowTemplates now name description active d =
           (Inr [\<lparr>tpl_id = seq_workflowTemplates (sequences d) + 1, tpl_name = name,
                   tpl_description = Some description, tpl_isActive = active,
                   tpl_createdAt = now\<rparr>],
            d\<lparr>sequences := (sequences d)
                  \<lparr>seq_workflowTemplates := seq_workflowTemplates (sequences d) + 1\<rparr>,
              workflowTemplates := workflowTemplates d
                @ [\<lparr>tpl_id = seq_workflowTemplates (sequences d) + 1, tpl_name = name,
                     tpl_description = Some description, tpl_isActive = active,
                     tpl_createdAt = now\<rparr>]\<rparr>)"
proof -
  from assms(3) have
    "seq_workflowTemplates (sequences d) + 1 \<notin> set (map tpl_id (workflowTemplates d))"
    by (auto simp: list_all_iff)
  with assms(1,2) show ?thesis
    by (simp add: insert_workflowTemplates_def nextval_def Let_def)
qed

subsection \<open>The call\<close>

lemma createWorkflowTemplate_outcome:
  assumes "createWorkflowTemplate now date input d = (r, d')"
  obtains
    (failed) e where "r = Inl e" "e = StoreError \<or> e = EmptyValues"
      "d' = d\<lparr>sequences := sequences d'\<rparr>"
  | (stored) "r = Inr (new_template now input d)" "d' = created now date input d"
      "cwt_steps input = [] \<or> cwt_transitions input \<noteq> []"
      "cwt_steps input = []
       \<or> list_all (\<lambda>t. ti_fromStepId t \<in> set (map step_id (workflowSteps d'))
                         \<and> ti_toStepId t \<in> set (map step_id (workflowSteps d')))
            (cwt_transitions input)"
proof -
  let ?t = "new_template now input d"
  obtain r0 tx1 where tpl: "insert_workflowTemplates now (cwt_name input) (cwt_description input)
      True d = (r0, tx1)"
    by (cases "insert_workflowTemplates now (cwt_name input) (cwt_description input) True d")
  show thesis
  proof (cases r0)
    case (Inl e)
    with tpl have "e = StoreError" by (auto dest: insert_workflowTemplates_Inl)
    moreover from assms tpl Inl have "r = Inl e" "d' = d\<lparr>sequences := sequences d'\<rparr>"
      by (auto simp: createWorkflowTemplate_def transaction_def)
    ultimately show ?thesis using failed by blast
  next
    case (Inr rows)
    note t1 = insert_workflowTemplates_Inr [OF tpl [unfolded Inr]]
    then have rows: "rows = [?t]" by (simp add: new_template_def)
    obtain r1 tx2 where steps: "insert_steps now (tpl_id ?t) (cwt_steps input) tx1 = (r1, tx2)"
      by (cases "insert_steps now (tpl_id ?t) (cwt_steps input) tx1")
    show ?thesis
    proof (cases r1)
      case (Inl e)
      with steps have "e = StoreError" by (auto dest: insert_steps_Inl)
      moreover from assms tpl \<open>r0 = Inr rows\<close> rows steps Inl
      have "r = Inl e" "d' = d\<lparr>sequences := sequences d'\<rparr>"
        by (auto simp: createWorkflowTemplate_def transaction_def)
      ultimately show ?thesis using failed by blast
    next
      case (Inr news)
      note s1 = insert_steps_Inr [OF steps [unfolded Inr]]
      then have len: "length news = length (cwt_steps input)" by simp
      show ?thesis
      proof (cases "cwt_steps input = []")
        case True
        with len have "\<not> 0 < length news" by simp
        with assms tpl \<open>r0 = Inr rows\<close> rows steps \<open>r1 = Inr news\<close>
        have "r = Inr ?t" "d' = tx2"
          by (auto simp: createWorkflowTemplate_def transaction_def)
        moreover from s1 t1 True rows have "tx2 = created now date input d"
          by (simp add: created_def new_template_def)
        ultimately show ?thesis using stored True by blast
      next
        case False
        with len have pos: "0 < length news" by simp
        obtain r2 tx3 where tr:
          "insert_workflowStepTransitions date (cwt_transitions input) tx2 = (r2, tx3)"
          by (cases "insert_workflowStepTransitions date (cwt_transitions input) tx2")
        show ?thesis
        proof (cases r2)
          case (Inl e)
          with tr have "e = StoreError \<or> e = EmptyValues"
            by (auto dest: insert_workflowStepTransitions_Inl)
          moreover from assms tpl \<open>r0 = Inr rows\<close> rows steps \<open>r1 = Inr news\<close> pos tr Inl
          have "r = Inl e" "d' = d\<lparr>sequences := sequences d'\<rparr>"
            by (auto simp: createWorkflowTemplate_def transaction_def)
          ultimately show ?thesis using failed by blast
        next
          case (Inr u)
          note r1 = insert_workflowStepTransitions_Inr [OF tr [unfolded Inr]]
          from assms tpl \<open>r0 = Inr rows\<close> rows steps \<open>r1 = Inr news\<close> pos tr Inr
          have res: "r = Inr ?t" "d' = tx3"
            by (auto simp: createWorkflowTemplate_def transaction_def)
          from r1 s1 t1 False rows have tx3: "tx3 = created now date input d"
            by (simp add: created_def new_template_def)
          from r1 s1 have same: "workflowSteps tx3 = workflowSteps tx2" by simp
          from r1 have "list_all (\<lambda>t. ti_fromStepId t \<in> set (map step_id (workflowSteps tx2))
                         \<and> ti_toStepId t \<in> set (map step_id (workflowSteps tx2)))
            (cwt_transitions input)" by simp
          with same res have "list_all (\<lambda>t. ti_fromStepId t \<in> set (map step_id (workflowSteps d'))
                         \<and> ti_toStepId t \<in> set (map step_id (workflowSteps d')))
            (cwt_transitions input)" by simp
          with res tx3 r1 show ?thesis using stored by blast
        qed
      qed
    qed
  qed
qed

lemma createWorkflowTemplate_accepted:
  assumes "issued d" and "accepted input d"
  shows "createWorkflowTemplate now date input d
           = (Inr (new_template now input d), created now date input d)"
proof -
  let ?t = "new_template now input d"
  let ?tx1 = "d\<lparr>sequences := (sequences d)
                     \<lparr>seq_workflowTemplates := seq_workflowTemplates (sequences d) + 1\<rparr>,
                workflowTemplates := workflowTemplates d @ [?t]\<rparr>"
  let ?n = "seq_workflowSteps (sequences d)"
  let ?rows = "step_rows now (tpl_id ?t) ?n (cwt_steps input)"
  let ?tx2 = "?tx1\<lparr>sequences := (sequences ?tx1)
                     \<lparr>seq_workflowSteps := ?n + int (length (cwt_steps input))\<rparr>,
                  workflowSteps := workflowSteps d @ ?rows\<rparr>"
  from assms have tpl: "insert_workflowTemplates now (cwt_name input) (cwt_description input)
      True d = (Inr [?t], ?tx1)"
    unfolding new_template_def
    by (intro insert_workflowTemplates_accepted) (simp_all add: issued_def accepted_def)
  show ?thesis
  proof (cases "cwt_steps input = []")
    case True
    with tpl show ?thesis
      by (simp add: createWorkflowTemplate_def transaction_def created_def)
  next
    case False
    have "insert_steps now (tpl_id ?t) (cwt_steps input) ?tx1 =
          (Inr (map Some (step_rows now (tpl_id ?t) (seq_workflowSteps (sequences ?tx1))
                  (cwt_steps input))),
           ?tx1\<lparr>sequences := (sequences ?tx1)
                   \<lparr>seq_workflowSteps := seq_workflowSteps (sequences ?tx1)
                      + int (length (cwt_steps input))\<rparr>,
                workflowSteps := workflowSteps ?tx1
                  @ step_rows now (tpl_id ?t) (seq_workflowSteps (sequences ?tx1))
                      (cwt_steps input)\<rparr>)"
      using assms False by (intro insert_steps_accepted) (simp_all add: issued_def accepted_def)
    then have steps: "insert_steps now (tpl_id ?t) (cwt_steps input) ?tx1
        = (Inr (map Some ?rows), ?tx2)"
      by simp
    let ?m = "seq_workflowStepTransitions (sequences d)"
    from False assms(2) have ts: "cwt_transitions input \<noteq> []"
      and each: "list_all (transition_accepted (map step_id (workflowSteps d)) ?n
                   (int (length (cwt_steps input)))) (cwt_transitions input)"
      and room: "?m + int (length (cwt_transitions input)) \<le> 2147483647"
      by (simp_all add: accepted_def)
    have ids: "set (map step_id (workflowSteps ?tx2))
        = set (map step_id (workflowSteps d)) \<union> {i. ?n < i \<and> i \<le> ?n + int (length (cwt_steps input))}"
      using step_rows_ids [of _ now "tpl_id ?t" ?n "cwt_steps input"] by auto
    from each have fk: "list_all (\<lambda>t. int32 (ti_fromStepId t) \<and> int32 (ti_toStepId t)
                        \<and> (case ti_conditionType t of None \<Rightarrow> True | Some c \<Rightarrow> varchar 50 c)
                        \<and> ti_fromStepId t \<in> set (map step_id (workflowSteps ?tx2))
                        \<and> ti_toStepId t \<in> set (map step_id (workflowSteps ?tx2)))
          (cwt_transitions input)"
      unfolding ids by (auto simp: list_all_iff transition_accepted_def)
    have "insert_workflowStepTransitions date (cwt_transitions input) ?tx2 =
           (Inr (),
            ?tx2\<lparr>sequences := (sequences ?tx2)
                 \<lparr>seq_workflowStepTransitions :=
                    seq_workflowStepTransitions (sequences ?tx2)
                      + int (length (cwt_transitions input))\<rparr>,
              workflowStepTransitions := workflowStepTransitions ?tx2
                @ transition_rows date (seq_workflowStepTransitions (sequences ?tx2))
                    (cwt_transitions input)\<rparr>)"
      using ts fk assms(1) room
      by (intro insert_workflowStepTransitions_accepted) (simp_all add: issued_def)
    with tpl steps False show ?thesis
      by (simp add: createWorkflowTemplate_def transaction_def created_def)
  qed
qed

lemma createWorkflowTemplate_role_missing:
  assumes "\<exists>s\<in>set (cwt_steps input). si_roleId s \<notin> set (map role_id (roles d))"
  shows "fst (createWorkflowTemplate now date input d) = Inl StoreError"
proof -
  obtain r0 tx1 where tpl: "insert_workflowTemplates now (cwt_name input) (cwt_description input)
      True d = (r0, tx1)"
    by (cases "insert_workflowTemplates now (cwt_name input) (cwt_description input) True d")
  show ?thesis
  proof (cases r0)
    case (Inl e)
    with tpl have "e = StoreError" by (auto dest: insert_workflowTemplates_Inl)
    with tpl Inl show ?thesis
      by (simp add: createWorkflowTemplate_def transaction_def)
  next
    case (Inr rows)
    note t1 = insert_workflowTemplates_Inr [OF tpl [unfolded Inr]]
    then have "roles tx1 = roles d" by simp
    with assms have "\<exists>s\<in>set (cwt_steps input). si_roleId s \<notin> set (map role_id (roles tx1))"
      by simp
    from insert_steps_role_missing [OF this] obtain tx2 where
      "insert_steps now (seq_workflowTemplates (sequences d) + 1) (cwt_steps input) tx1
         = (Inl StoreError, tx2)" by blast
    with tpl Inr t1 show ?thesis
      by (simp add: createWorkflowTemplate_def transaction_def)
  qed
qed

section \<open>The outcomes of \<open>startWorkflow\<close>\<close>

lemma take_1_filter:
  "take 1 (filter P xs) = (case filter P xs of [] \<Rightarrow> [] | x # _ \<Rightarrow> [x])"
  by (cases "filter P xs") simp_all

lemma varchar_ACTIVE [simp]: "varchar 20 ''ACTIVE''" and varchar_PENDING [simp]: "varchar 20 ''PENDING''"
  by (simp_all add: varchar_def)


lemma startWorkflow_not_found:
  assumes "int32 (sw_templateId input)"
      and nf: "find (\<lambda>t. tpl_id t = sw_templateId input) (workflowTemplates d) = None
           \<or> entry_steps (sw_templateId input) d = []"
  shows "startWorkflow now input d = (Inl TemplateNotFoundOrNoSteps, d)"
proof (cases "find (\<lambda>t. tpl_id t = sw_templateId input) (workflowTemplates d)")
  case None
  with assms(1) show ?thesis by (simp add: startWorkflow_defs)
next
  case (Some template)
  then have id: "tpl_id template = sw_templateId input"
    by (auto simp: find_Some_iff)
  from Some nf have "entry_steps (sw_templateId input) d = []" by simp
  then have "filter (\<lambda>s. step_workflowTemplateId s = sw_templateId input \<and> step_stepOrder s = 1)
       (workflowSteps d) = []"
    by (simp add: entry_steps_def)
  with Some id assms(1) show ?thesis by (simp add: startWorkflow_defs)
qed

lemma startWorkflow_no_holder:
  assumes "find (\<lambda>t. tpl_id t = sw_templateId input) (workflowTemplates d) = Some template"
      and "entry_steps (sw_templateId input) d = firstStep # others"
      and "int32 (sw_templateId input)"
      and nh: "find (\<lambda>r. ur_roleId r = step_roleId firstStep) (userRoles d) = None
           \<or> (\<exists>holder. find (\<lambda>r. ur_roleId r = step_roleId firstStep) (userRoles d) = Some holder
                \<and> find (\<lambda>u. user_id u = ur_userId holder) (users d) = None)"
  shows "startWorkflow now input d = (Inl NoEligibleUsers, d)"
proof -
  from assms(1) have id: "tpl_id template = sw_templateId input"
    by (auto simp: find_Some_iff)
  from assms(2) have steps:
    "filter (\<lambda>s. step_workflowTemplateId s = sw_templateId input \<and> step_stepOrder s = 1)
       (workflowSteps d) = firstStep # others"
    by (simp add: entry_steps_def)
  from nh show ?thesis
    using assms(1,3) id by (auto simp: startWorkflow_defs take_1_filter steps)
qed

lemma startWorkflow_out_of_range:
  "\<not> int32 (sw_templateId input) \<Longrightarrow> startWorkflow now input d = (Inl StoreError, d)"
  by (simp add: startWorkflow_defs)

lemma startWorkflow_failure:
  assumes "startWorkflow now input d = (Inl e, d')"
  shows "d' = d\<lparr>sequences := sequences d'\<rparr>
       \<and> (e = TemplateNotFoundOrNoSteps \<or> e = NoEligibleUsers \<or> e = StoreError)"
  using assms
  by (auto simp: startWorkflow_defs split: option.splits list.splits if_splits)

lemma startWorkflow_success:
  assumes "startWorkflow now input d = (Inr returned, d')"
  shows "\<exists>template firstStep others holder eligibleUser.
           int32 (sw_templateId input) \<and>
           find (\<lambda>t. tpl_id t = sw_templateId input) (workflowTemplates d) = Some template
           \<and> entry_steps (sw_templateId input) d = firstStep # others
           \<and> find (\<lambda>r. ur_roleId r = step_roleId firstStep) (userRoles d) = Some holder
           \<and> find (\<lambda>u. user_id u = ur_userId holder) (users d) = Some eligibleUser
           \<and> returned = new_instance now input (step_id firstStep) (ur_userId holder) d
           \<and> d' = d\<lparr>sequences := (sequences d)
                  \<lparr>seq_workflowInstances := seq_workflowInstances (sequences d) + 1,
                   seq_workflowStepAssignments :=
                     seq_workflowStepAssignments (sequences d) + 1\<rparr>,
              workflowInstances := workflowInstances d
                @ [new_instance now input (step_id firstStep) (ur_userId holder) d],
              workflowStepAssignments := workflowStepAssignments d
                @ [new_assignment now (step_id firstStep) (ur_userId holder) d]\<rparr>"
proof (cases "find (\<lambda>t. tpl_id t = sw_templateId input) (workflowTemplates d) = None
           \<or> entry_steps (sw_templateId input) d = []")
  case True
  show ?thesis
  proof (cases "int32 (sw_templateId input)")
    case True
    from startWorkflow_not_found [OF True \<open>_ \<or> _\<close>] assms show ?thesis by simp
  next
    case False
    from startWorkflow_out_of_range [OF False] assms show ?thesis by simp
  qed
next
  case False
  have range: "int32 (sw_templateId input)"
  proof (rule ccontr)
    assume "\<not> int32 (sw_templateId input)"
    from startWorkflow_out_of_range [OF this] assms show False by simp
  qed
  from False obtain template firstStep others where
    t: "find (\<lambda>t. tpl_id t = sw_templateId input) (workflowTemplates d) = Some template"
    and s: "entry_steps (sw_templateId input) d = firstStep # others"
    by (cases "entry_steps (sw_templateId input) d") auto
  from t have id: "tpl_id template = sw_templateId input"
    by (auto simp: find_Some_iff)
  from s have steps:
    "filter (\<lambda>s. step_workflowTemplateId s = sw_templateId input \<and> step_stepOrder s = 1)
       (workflowSteps d) = firstStep # others"
    by (simp add: entry_steps_def)
  show ?thesis
  proof (cases "find (\<lambda>r. ur_roleId r = step_roleId firstStep) (userRoles d)")
    case None
    with startWorkflow_no_holder [OF t s range] assms show ?thesis by simp
  next
    case h: (Some holder)
    show ?thesis
    proof (cases "find (\<lambda>u. user_id u = ur_userId holder) (users d)")
      case None
      with h startWorkflow_no_holder [OF t s range] assms show ?thesis by simp
    next
      case u: (Some eligibleUser)
      then have uid: "user_id eligibleUser = ur_userId holder"
        by (auto simp: find_Some_iff)
      from assms t h u id uid range have
        "returned = new_instance now input (step_id firstStep) (ur_userId holder) d
         \<and> d' = d\<lparr>sequences := (sequences d)
                  \<lparr>seq_workflowInstances := seq_workflowInstances (sequences d) + 1,
                   seq_workflowStepAssignments :=
                     seq_workflowStepAssignments (sequences d) + 1\<rparr>,
              workflowInstances := workflowInstances d
                @ [new_instance now input (step_id firstStep) (ur_userId holder) d],
              workflowStepAssignments := workflowStepAssignments d
                @ [new_assignment now (step_id firstStep) (ur_userId holder) d]\<rparr>"
        by (auto simp: startWorkflow_defs take_1_filter steps new_instance_def
            new_assignment_def split: if_splits)
      with t s h u range show ?thesis by blast
    qed
  qed
qed


section \<open>The sequences stay ahead of the tables\<close>

text \<open>
  \<open>issued\<close> holds of a store without rows, and every procedure of the router keeps it:
  a call that fails leaves the tables as they were and moves no sequence back, and a call
  that succeeds stores rows whose identities it took from the sequences.
\<close>

lemma not_behind_refl [simp]: "not_behind q q"
  by (simp add: not_behind_def)

lemma not_behind_trans: "not_behind q q' \<Longrightarrow> not_behind q' q'' \<Longrightarrow> not_behind q q''"
  by (auto simp: not_behind_def)

lemma issued_not_behind:
  "issued d \<Longrightarrow> not_behind (sequences d) q \<Longrightarrow> issued (d\<lparr>sequences := q\<rparr>)"
  by (auto simp: issued_def not_behind_def list_all_iff intro: order_trans)

lemma insert_workflowTemplates_not_behind:
  "insert_workflowTemplates now name description isActive d = (r, d') \<Longrightarrow>
     not_behind (sequences d) (sequences d')"
  by (auto simp: insert_workflowTemplates_def nextval_def Let_def not_behind_def
      split: if_splits)

lemma insert_workflowSteps_not_behind:
  "insert_workflowSteps now step tid d = (r, d') \<Longrightarrow> not_behind (sequences d) (sequences d')"
  by (auto simp: insert_workflowSteps_def nextval_def Let_def not_behind_def split: if_splits)

lemma insert_steps_not_behind:
  "insert_steps now tid steps d = (r, d') \<Longrightarrow> not_behind (sequences d) (sequences d')"
proof (induction steps arbitrary: d r d')
  case Nil
  then show ?case by simp
next
  case (Cons step rest)
  obtain r1 d1 where one: "insert_workflowSteps now step tid d = (r1, d1)"
    by (cases "insert_workflowSteps now step tid d")
  note a = insert_workflowSteps_not_behind [OF one]
  show ?case
  proof (cases r1)
    case (Inl e)
    with Cons.prems one a show ?thesis by simp
  next
    case (Inr rows)
    obtain r2 d2 where more: "insert_steps now tid rest d1 = (r2, d2)"
      by (cases "insert_steps now tid rest d1")
    from Cons.IH [OF more] a have "not_behind (sequences d) (sequences d2)"
      by (rule not_behind_trans [rotated])
    with Cons.prems one Inr more show ?thesis
      by (cases r2) auto
  qed
qed

lemma store_transitions_not_behind:
  "store_transitions date ts d = (r, d') \<Longrightarrow> not_behind (sequences d) (sequences d')"
proof (induction ts arbitrary: d)
  case Nil
  then show ?case by simp
next
  case (Cons t rest)
  let ?n = "seq_workflowStepTransitions (sequences d)"
  show ?case
  proof (cases "?n + 1 \<le> 2147483647
      \<and> (case ti_conditionType t of None \<Rightarrow> True | Some c \<Rightarrow> varchar 50 c)
      \<and> ?n + 1 \<notin> set (map tr_id (workflowStepTransitions d))")
    case True
    let ?d1 = "d\<lparr>sequences := (sequences d)\<lparr>seq_workflowStepTransitions := ?n + 1\<rparr>,
                 workflowStepTransitions := workflowStepTransitions d
                   @ [\<lparr>tr_id = ?n + 1, tr_fromStepId = ti_fromStepId t,
                        tr_toStepId = ti_toStepId t, tr_conditionType = ti_conditionType t,
                        tr_conditionValue = ti_conditionValue t, tr_createdAt = date\<rparr>]\<rparr>"
    from Cons.prems True have "store_transitions date rest ?d1 = (r, d')"
      by (simp add: nextval_def Let_def)
    from Cons.IH [OF this] show ?thesis
      by (simp add: not_behind_def)
  next
    case False
    with Cons.prems show ?thesis
      by (auto simp: nextval_def Let_def not_behind_def split: if_splits)
  qed
qed

lemma insert_workflowStepTransitions_not_behind:
  "insert_workflowStepTransitions date ts d = (r, d') \<Longrightarrow>
     not_behind (sequences d) (sequences d')"
  by (auto simp: insert_workflowStepTransitions_def split: if_splits prod.splits sum.splits
      dest: store_transitions_not_behind)

lemma createWorkflowTemplate_not_behind:
  assumes "createWorkflowTemplate now date input d = (r, d')"
  shows "not_behind (sequences d) (sequences d')"
proof -
  obtain r0 tx1 where tpl: "insert_workflowTemplates now (cwt_name input) (cwt_description input)
      True d = (r0, tx1)"
    by (cases "insert_workflowTemplates now (cwt_name input) (cwt_description input) True d")
  note a1 = insert_workflowTemplates_not_behind [OF tpl]
  show ?thesis
  proof (cases r0)
    case (Inl e)
    with assms tpl a1 show ?thesis
      by (auto simp: createWorkflowTemplate_def transaction_def)
  next
    case (Inr rows)
    show ?thesis
    proof (cases rows)
      case Nil
      with assms tpl Inr a1 show ?thesis
        by (auto simp: createWorkflowTemplate_def transaction_def)
    next
      case (Cons template others)
      obtain r1 tx2 where steps: "insert_steps now (tpl_id template) (cwt_steps input) tx1
          = (r1, tx2)"
        by (cases "insert_steps now (tpl_id template) (cwt_steps input) tx1")
      from insert_steps_not_behind [OF steps] a1
      have a2: "not_behind (sequences d) (sequences tx2)"
        by (rule not_behind_trans [rotated])
      show ?thesis
      proof (cases r1)
        case (Inl e)
        with assms tpl Inr Cons steps a2 show ?thesis
          by (auto simp: createWorkflowTemplate_def transaction_def)
      next
        case news: (Inr news)
        obtain r2 tx3 where trs:
          "insert_workflowStepTransitions date (cwt_transitions input) tx2 = (r2, tx3)"
          by (cases "insert_workflowStepTransitions date (cwt_transitions input) tx2")
        from insert_workflowStepTransitions_not_behind [OF trs] a2
        have a3: "not_behind (sequences d) (sequences tx3)"
          by (rule not_behind_trans [rotated])
        from assms tpl Inr Cons steps news trs a2 a3 show ?thesis
          by (cases r2) (auto simp: createWorkflowTemplate_def transaction_def split: if_splits)
      qed
    qed
  qed
qed

lemma transition_rows_ids:
  "i \<in> set (map tr_id (transition_rows date n ts)) \<longleftrightarrow> n < i \<and> i \<le> n + int (length ts)"
  by (induction ts arbitrary: n) auto

lemma issued_created:
  assumes "issued d"
  shows "issued (created now date input d)"
proof -
  have steps: "list_all (\<lambda>r. step_id r
                 \<le> seq_workflowSteps (sequences d) + int (length (cwt_steps input)))
        (step_rows now tid (seq_workflowSteps (sequences d)) (cwt_steps input))" for tid
    using step_rows_ids [of _ now tid "seq_workflowSteps (sequences d)" "cwt_steps input"]
    by (auto simp: list_all_iff)
  have transitions: "list_all (\<lambda>r. tr_id r
                 \<le> seq_workflowStepTransitions (sequences d) + int (length (cwt_transitions input)))
        (transition_rows date (seq_workflowStepTransitions (sequences d)) (cwt_transitions input))"
    using transition_rows_ids [of _ date "seq_workflowStepTransitions (sequences d)"
        "cwt_transitions input"]
    by (auto simp: list_all_iff)
  from assms have old:
    "list_all (\<lambda>r. tpl_id r \<le> seq_workflowTemplates (sequences d) + 1) (workflowTemplates d)"
    "list_all (\<lambda>r. step_id r
        \<le> seq_workflowSteps (sequences d) + int (length (cwt_steps input))) (workflowSteps d)"
    "list_all (\<lambda>r. tr_id r
        \<le> seq_workflowStepTransitions (sequences d) + int (length (cwt_transitions input)))
       (workflowStepTransitions d)"
    by (auto simp: issued_def list_all_iff)
  from assms old steps transitions show ?thesis
    by (simp add: issued_def created_def new_template_def)
qed

lemma createWorkflowTemplate_issued:
  assumes "issued d"
  shows "issued (snd (createWorkflowTemplate now date input d))"
proof -
  obtain r d' where call: "createWorkflowTemplate now date input d = (r, d')"
    by (cases "createWorkflowTemplate now date input d")
  from call have "issued d'"
  proof (cases rule: createWorkflowTemplate_outcome)
    case (failed e)
    from issued_not_behind [OF assms createWorkflowTemplate_not_behind [OF call]] failed(3)
    show ?thesis by simp
  next
    case stored
    with issued_created [OF assms] show ?thesis by simp
  qed
  with call show ?thesis by simp
qed

lemma startWorkflow_issued:
  assumes "issued d"
  shows "issued (snd (startWorkflow now input d))"
proof -
  obtain r d' where call: "startWorkflow now input d = (r, d')"
    by (cases "startWorkflow now input d")
  have "issued d'"
  proof (cases r)
    case (Inl e)
    with call have failed: "startWorkflow now input d = (Inl e, d')" by simp
    then have "not_behind (sequences d) (sequences d')"
      by (auto simp: startWorkflow_defs not_behind_def
          split: option.splits list.splits if_splits)
    from issued_not_behind [OF assms this] startWorkflow_failure [OF failed]
    show ?thesis by simp
  next
    case (Inr returned)
    with call have "startWorkflow now input d = (Inr returned, d')" by simp
    from startWorkflow_success [OF this] obtain stepId assigneeId where
      "d' = d\<lparr>sequences := (sequences d)
                  \<lparr>seq_workflowInstances := seq_workflowInstances (sequences d) + 1,
                   seq_workflowStepAssignments :=
                     seq_workflowStepAssignments (sequences d) + 1\<rparr>,
              workflowInstances := workflowInstances d
                @ [new_instance now input stepId assigneeId d],
              workflowStepAssignments := workflowStepAssignments d
                @ [new_assignment now stepId assigneeId d]\<rparr>"
      by blast
    with assms show ?thesis
      by (auto simp: issued_def new_instance_def new_assignment_def list_all_iff)
  qed
  with call show ?thesis by simp
qed

lemma takeAction_issued:
  "issued d \<Longrightarrow> issued (snd (takeAction evalCondition now input d))"
  by (simp add: takeAction_throws)

lemma issued_empty:
  "issued \<lparr>users = us, roles = rs, userRoles = urs, workflowTemplates = [], workflowSteps = [],
           workflowStepTransitions = [], workflowInstances = [], workflowStepAssignments = [],
           workflowActions = [], sequences = q\<rparr>"
  by (simp add: issued_def)

section \<open>Properties\<close>

subsection \<open>Creating a template\<close>



text \<open>
  Claim C7 as stated fails. Two steps of the same order are accepted and persisted; so is
  a step whose rejection step names no step at all, with a transition between two steps
  of another template.
\<close>

theorem createWorkflowTemplate_validation_counterexample:
  "map si_stepOrder [step_input ''A'' 1 1 None, step_input ''B'' 1 1 None] = [1, 1]
   \<and> createWorkflowTemplate 9 10
        (template_input ''D'' [step_input ''A'' 1 1 None, step_input ''B'' 1 1 None] [edge 1 2])
        roles_db =
       (Inr (template_row 1 ''D'' 9),
        roles_db
          \<lparr>sequences := last_values 1 2 1 0 0 0,
           workflowTemplates := [template_row 1 ''D'' 9],
           workflowSteps := [step_row 1 1 ''A'' 1 1 None 9, step_row 2 1 ''B'' 1 1 None 9],
           workflowStepTransitions := [transition_row 1 1 2 10]\<rparr>)
   \<and> createWorkflowTemplate 9 10
        (template_input ''O'' [step_input ''A'' 1 1 (Some 99)] [edge 1 2]) template_db =
       (Inr (template_row 2 ''O'' 9),
        template_db
          \<lparr>sequences := last_values 2 3 2 0 0 0,
           workflowTemplates := [T, template_row 2 ''O'' 9],
           workflowSteps := [S1, S2, step_row 3 2 ''A'' 1 1 (Some 99) 9],
           workflowStepTransitions := [S1_to_S2, transition_row 2 1 2 10]\<rparr>)"
  by (simp add: scenario_defs createWorkflowTemplate_eval)

text \<open>
  Claim C7, as amended. \<open>createWorkflowTemplate\<close> validates nothing by itself: what
  refuses an input is the store, or the query builder. A call that fails has persisted no
  row: the store differs from the store before in its sequences at most. A call that
  succeeds returns the new template and has added it, one step row per supplied step,
  carrying the supplied fields and the new template's identity, and, when steps were
  supplied, one transition row per supplied transition, whose endpoints name rows of the
  table of steps. A call in which some step names a role that does not exist fails. A
  call succeeds when the sequences have issued the identities in the tables (\<open>issued\<close>)
  and the store accepts its rows (\<open>accepted\<close>): the texts fit their columns and the
  numbers 32 bits, every step's role exists and, when steps are supplied, there is a
  transition and every endpoint names a stored step or one of the steps of the call;
  neither the step orders nor the rejection steps are looked at.
\<close>

theorem createWorkflowTemplate_checks:
  assumes "createWorkflowTemplate now date input d = (r, d')"
  shows "(case r of
            Inl e \<Rightarrow> (e = StoreError \<or> e = EmptyValues) \<and> d' = d\<lparr>sequences := sequences d'\<rparr>
          | Inr template \<Rightarrow>
              template = new_template now input d \<and> d' = created now date input d
              \<and> map supplied_step (drop (length (workflowSteps d)) (workflowSteps d'))
                  = cwt_steps input
              \<and> (cwt_steps input = []
                  \<or> map supplied_transition
                        (drop (length (workflowStepTransitions d)) (workflowStepTransitions d'))
                      = cwt_transitions input
                    \<and> list_all (\<lambda>t. ti_fromStepId t \<in> set (map step_id (workflowSteps d'))
                                      \<and> ti_toStepId t \<in> set (map step_id (workflowSteps d')))
                        (cwt_transitions input)))
       \<and> ((\<exists>s\<in>set (cwt_steps input). si_roleId s \<notin> set (map role_id (roles d))) \<longrightarrow>
            r = Inl StoreError)
       \<and> (issued d \<and> accepted input d \<longrightarrow> r = Inr (new_template now input d))"
proof (intro conjI impI)
  from assms show "case r of
            Inl e \<Rightarrow> (e = StoreError \<or> e = EmptyValues) \<and> d' = d\<lparr>sequences := sequences d'\<rparr>
          | Inr template \<Rightarrow>
              template = new_template now input d \<and> d' = created now date input d
              \<and> map supplied_step (drop (length (workflowSteps d)) (workflowSteps d'))
                  = cwt_steps input
              \<and> (cwt_steps input = []
                  \<or> map supplied_transition
                        (drop (length (workflowStepTransitions d)) (workflowStepTransitions d'))
                      = cwt_transitions input
                    \<and> list_all (\<lambda>t. ti_fromStepId t \<in> set (map step_id (workflowSteps d'))
                                      \<and> ti_toStepId t \<in> set (map step_id (workflowSteps d')))
                        (cwt_transitions input))"
  proof (cases rule: createWorkflowTemplate_outcome)
    case (failed e)
    then show ?thesis by simp
  next
    case stored
    have steps: "map supplied_step (drop (length (workflowSteps d)) (workflowSteps d'))
        = cwt_steps input"
      by (simp add: stored(2) created_def)
    have transitions: "cwt_steps input = []
        \<or> map supplied_transition
              (drop (length (workflowStepTransitions d)) (workflowStepTransitions d'))
            = cwt_transitions input"
      by (simp add: stored(2) created_def)
    from stored(1,2) steps transitions stored(4) show ?thesis
      unfolding stored(1) sum.case by blast
  qed
next
  assume "\<exists>s\<in>set (cwt_steps input). si_roleId s \<notin> set (map role_id (roles d))"
  from createWorkflowTemplate_role_missing [OF this, of now date] assms
  show "r = Inl StoreError" by simp
next
  assume "issued d \<and> accepted input d"
  then have "createWorkflowTemplate now date input d
      = (Inr (new_template now input d), created now date input d)"
    by (simp add: createWorkflowTemplate_accepted)
  with assms show "r = Inr (new_template now input d)" by simp
qed

theorem createWorkflowTemplate_checks_witness:
  "issued template_db
   \<and> accepted (template_input ''W''
        [step_input ''A'' 1 1 None, step_input ''B'' 2 2 (Some 3)] [edge 3 4]) template_db
   \<and> createWorkflowTemplate 9 10
        (template_input ''W'' [step_input ''A'' 1 1 None, step_input ''B'' 2 2 (Some 3)]
           [edge 3 4]) template_db =
       (Inr (template_row 2 ''W'' 9),
        template_db
          \<lparr>sequences := last_values 2 4 2 0 0 0,
           workflowTemplates := [T, template_row 2 ''W'' 9],
           workflowSteps := [S1, S2, step_row 3 2 ''A'' 1 1 None 9,
                             step_row 4 2 ''B'' 2 2 (Some 3) 9],
           workflowStepTransitions := [S1_to_S2, transition_row 2 3 4 10]\<rparr>)
   \<and> new_template 9 (template_input ''W''
        [step_input ''A'' 1 1 None, step_input ''B'' 2 2 (Some 3)] [edge 3 4]) template_db
       = template_row 2 ''W'' 9
   \<and> (\<exists>s\<in>set (cwt_steps (template_input ''X'' [step_input ''A'' 1 7 None] [edge 1 2])).
         si_roleId s \<notin> set (map role_id (roles template_db)))
   \<and> createWorkflowTemplate 9 10 (template_input ''X'' [step_input ''A'' 1 7 None] [edge 1 2])
        template_db =
       (Inl StoreError, template_db\<lparr>sequences := last_values 2 3 1 0 0 0\<rparr>)"
proof -
  let ?in = "template_input ''W'' [step_input ''A'' 1 1 None, step_input ''B'' 2 2 (Some 3)]
               [edge 3 4]"
  let ?out = "template_db
          \<lparr>sequences := last_values 2 4 2 0 0 0,
           workflowTemplates := [T, template_row 2 ''W'' 9],
           workflowSteps := [S1, S2, step_row 3 2 ''A'' 1 1 None 9,
                             step_row 4 2 ''B'' 2 2 (Some 3) 9],
           workflowStepTransitions := [S1_to_S2, transition_row 2 3 4 10]\<rparr>"
  let ?bad = "template_input ''X'' [step_input ''A'' 1 7 None] [edge 1 2]"
  let ?rolled = "template_db\<lparr>sequences := last_values 2 3 1 0 0 0\<rparr>"
  have i: "issued template_db"
    by (simp add: issued_def scenario_defs)
  have acc: "accepted ?in template_db"
    by (simp add: accepted_def step_accepted_def transition_accepted_def scenario_defs
        int32_def varchar_def)
  have a: "createWorkflowTemplate 9 10 ?in template_db = (Inr (template_row 2 ''W'' 9), ?out)"
    by (simp add: scenario_defs createWorkflowTemplate_eval)
  from createWorkflowTemplate_checks [OF a] i acc
  have "Inr (template_row 2 ''W'' 9) = (Inr (new_template 9 ?in template_db)
      :: error + workflowTemplate)"
    by blast
  then have b: "new_template 9 ?in template_db = template_row 2 ''W'' 9" by simp
  have c: "\<exists>s\<in>set (cwt_steps ?bad). si_roleId s \<notin> set (map role_id (roles template_db))"
    by (simp add: scenario_defs)
  obtain r1 d1 where call1: "createWorkflowTemplate 9 10 ?bad template_db = (r1, d1)"
    by (cases "createWorkflowTemplate 9 10 ?bad template_db")
  from createWorkflowTemplate_checks [OF call1] c
  have "r1 = Inl StoreError" by blast
  moreover have "snd (createWorkflowTemplate 9 10 ?bad template_db) = ?rolled"
    by (simp add: scenario_defs createWorkflowTemplate_eval)
  ultimately have e: "createWorkflowTemplate 9 10 ?bad template_db = (Inl StoreError, ?rolled)"
    using call1 by simp
  from i acc a b c e show ?thesis by blast
qed

subsection \<open>Starting a workflow\<close>



subsection \<open>The workflows assigned to a user\<close>

text \<open>
  Claim C9. \<open>getAssignedWorkflows\<close> is a function of the store that returns no store:
  it writes nothing. Its result holds exactly the instances whose current assignee is
  the given user and, when a status is given, whose status is that one, each as often as
  it is in the table; it is in ascending order of creation time; and each entry carries
  the instance's template, its current step and its current assignee, the given user.
\<close>

theorem getAssignedWorkflows_projection:
  "mset (map aw_instance (getAssignedWorkflows input d))
     = mset (filter (assigned_to input) (workflowInstances d))
   \<and> sorted (map (\<lambda>w. inst_createdAt (aw_instance w)) (getAssignedWorkflows input d))
   \<and> (\<forall>w\<in>set (getAssignedWorkflows input d).
         aw_template w
           = find (\<lambda>t. tpl_id t = inst_workflowTemplateId (aw_instance w)) (workflowTemplates d)
         \<and> aw_currentStep w
           = find (\<lambda>s. step_id s = inst_currentStepId (aw_instance w)) (workflowSteps d)
         \<and> aw_currentAssignee w = find (\<lambda>u. user_id u = gaw_userId input) (users d))"
proof -
  let ?sel = "filter (assigned_to input) (workflowInstances d)"
  have def: "getAssignedWorkflows input d = map (with_relations d) (sort_key inst_createdAt ?sel)"
    by (simp add: getAssignedWorkflows_def assigned_to_def [abs_def])
  have inst: "map aw_instance (getAssignedWorkflows input d) = sort_key inst_createdAt ?sel"
    by (simp add: def with_relations_def comp_def)
  have "map (\<lambda>w. inst_createdAt (aw_instance w)) (getAssignedWorkflows input d)
      = map inst_createdAt (map aw_instance (getAssignedWorkflows input d))"
    by (simp add: comp_def)
  then have srt: "sorted (map (\<lambda>w. inst_createdAt (aw_instance w)) (getAssignedWorkflows input d))"
    by (simp only: inst sorted_sort_key)
  have rel: "\<forall>w\<in>set (getAssignedWorkflows input d).
         aw_template w
           = find (\<lambda>t. tpl_id t = inst_workflowTemplateId (aw_instance w)) (workflowTemplates d)
         \<and> aw_currentStep w
           = find (\<lambda>s. step_id s = inst_currentStepId (aw_instance w)) (workflowSteps d)
         \<and> aw_currentAssignee w = find (\<lambda>u. user_id u = gaw_userId input) (users d)"
    by (auto simp: def with_relations_def assigned_to_def)
  from inst srt rel show ?thesis by simp
qed

theorem getAssignedWorkflows_projection_witness:
  "getAssignedWorkflows (assigned ''u2'' None) shuffled_db =
     [\<lparr>aw_instance = I2, aw_template = Some T, aw_currentStep = Some S2,
       aw_currentAssignee = Some Bob\<rparr>,
      \<lparr>aw_instance = I3, aw_template = Some T, aw_currentStep = Some S2,
       aw_currentAssignee = Some Bob\<rparr>]
   \<and> filter (assigned_to (assigned ''u2'' None)) (workflowInstances shuffled_db) = [I3, I2]
   \<and> sorted (map (\<lambda>w. inst_createdAt (aw_instance w))
        (getAssignedWorkflows (assigned ''u2'' None) shuffled_db))
   \<and> find (\<lambda>u. user_id u = gaw_userId (assigned ''u2'' None)) (users shuffled_db) = Some Bob
   \<and> getAssignedWorkflows (assigned ''u2'' (Some ACTIVE)) shuffled_db =
     [\<lparr>aw_instance = I2, aw_template = Some T, aw_currentStep = Some S2,
       aw_currentAssignee = Some Bob\<rparr>]"
proof -
  have a: "getAssignedWorkflows (assigned ''u2'' None) shuffled_db =
     [\<lparr>aw_instance = I2, aw_template = Some T, aw_currentStep = Some S2,
       aw_currentAssignee = Some Bob\<rparr>,
      \<lparr>aw_instance = I3, aw_template = Some T, aw_currentStep = Some S2,
       aw_currentAssignee = Some Bob\<rparr>]"
    by (simp add: scenario_defs getAssignedWorkflows_def
        with_relations_def)
  have b: "filter (assigned_to (assigned ''u2'' None)) (workflowInstances shuffled_db) = [I3, I2]"
    by (simp add: scenario_defs shuffled_db_def assigned_def assigned_to_def)
  have c: "getAssignedWorkflows (assigned ''u2'' (Some ACTIVE)) shuffled_db =
     [\<lparr>aw_instance = I2, aw_template = Some T, aw_currentStep = Some S2,
       aw_currentAssignee = Some Bob\<rparr>]"
    by (simp add: scenario_defs getAssignedWorkflows_def
        with_relations_def)
  from getAssignedWorkflows_projection [of "assigned ''u2'' None" shuffled_db]
  have d: "sorted (map (\<lambda>w. inst_createdAt (aw_instance w))
        (getAssignedWorkflows (assigned ''u2'' None) shuffled_db))
     \<and> (\<forall>w\<in>set (getAssignedWorkflows (assigned ''u2'' None) shuffled_db).
         aw_currentAssignee w
           = find (\<lambda>u. user_id u = gaw_userId (assigned ''u2'' None)) (users shuffled_db))"
    by blast
  have e: "find (\<lambda>u. user_id u = gaw_userId (assigned ''u2'' None)) (users shuffled_db)
      = Some Bob"
    by (simp add: scenario_defs)
  from a b c d e show ?thesis by blast
qed

subsection \<open>Taking an action\<close>

text \<open>
  Claim C1 is not met by the code. An APPROVE by the current assignee of an \<open>ACTIVE\<close>
  instance should advance the instance along the satisfied outgoing transition of least
  identity, or complete it. Every APPROVE throws instead, whatever the store and the
  input: the query of \<open>takeAction\<close> loads \<open>currentStep.fromTransitions\<close>, a relation
  declared by \<open>many\<close> with a name for which the table of transitions declares no
  relation at all, so that its columns cannot be inferred; the store is left as it was.
  In the scenario, \<open>I1\<close> is \<open>ACTIVE\<close> at \<open>S1\<close> with \<open>u1\<close>; of the transitions out of
  \<open>S1\<close> the one of least identity, \<open>guarded\<close>, has a condition that is not satisfied,
  and the next, \<open>S1_to_S2\<close>, has none; the APPROVE of \<open>u1\<close> should move \<open>I1\<close> to
  \<open>S2\<close>, and \<open>I1\<close> stays at \<open>S1\<close>.
\<close>

theorem takeAction_APPROVE_throws:
  "takeAction evalCondition now (input\<lparr>ta_actionType := APPROVE\<rparr>) d
     = (Inl (RelationNotInferable ''workflowSteps.fromTransitions''), d)
   \<and> relations WorkflowStepTransitions = []
   \<and> takeAction no_condition 9 (action 1 ''u1'' APPROVE) branching_db
       = (Inl (RelationNotInferable ''workflowSteps.fromTransitions''), branching_db)
   \<and> find (\<lambda>i. inst_id i = 1) (workflowInstances branching_db) = Some I1
   \<and> inst_status I1 = ''ACTIVE'' \<and> inst_currentAssigneeId I1 = Some ''u1''
   \<and> inst_currentStepId I1 = step_id S1
   \<and> sort_key tr_id (filter (\<lambda>t. tr_fromStepId t = step_id S1)
        (workflowStepTransitions branching_db)) = [guarded, S1_to_S2, loop]
   \<and> tr_conditionType guarded = Some ''amount''
   \<and> tr_conditionType S1_to_S2 = None \<and> tr_toStepId S1_to_S2 = step_id S2"
  by (simp add: takeAction_throws scenario_defs)

text \<open>
  Claim C2 is not met by the code. A REJECT by the current assignee of an \<open>ACTIVE\<close>
  instance should send the instance to the rejection step of its current step, or, when
  there is none, make it \<open>REJECTED\<close>. Every REJECT throws instead, for the reason given
  for C1, and the store is left as it was. In the scenario \<open>S1\<close> has a rejection step and
  \<open>S2\<close> has none: the REJECT of \<open>u1\<close> on \<open>I1\<close> creates no assignment row, and after
  the REJECT of \<open>u2\<close> on \<open>I2\<close> the instance is still \<open>ACTIVE\<close> with \<open>u2\<close>.
\<close>

theorem takeAction_REJECT_throws:
  "takeAction evalCondition now (input\<lparr>ta_actionType := REJECT\<rparr>) d
     = (Inl (RelationNotInferable ''workflowSteps.fromTransitions''), d)
   \<and> takeAction no_condition 9 (action 1 ''u1'' REJECT) running_db
       = (Inl (RelationNotInferable ''workflowSteps.fromTransitions''), running_db)
   \<and> find (\<lambda>i. inst_id i = 1) (workflowInstances running_db) = Some I1
   \<and> inst_status I1 = ''ACTIVE'' \<and> inst_currentAssigneeId I1 = Some ''u1''
   \<and> inst_currentStepId I1 = step_id S1 \<and> step_rejectionStepId S1 = Some 1
   \<and> workflowStepAssignments running_db = []
   \<and> takeAction no_condition 9 (action 2 ''u2'' REJECT) running_db
       = (Inl (RelationNotInferable ''workflowSteps.fromTransitions''), running_db)
   \<and> find (\<lambda>i. inst_id i = 2) (workflowInstances running_db) = Some I2
   \<and> inst_status I2 = ''ACTIVE'' \<and> inst_currentAssigneeId I2 = Some ''u2''
   \<and> inst_currentStepId I2 = step_id S2 \<and> step_rejectionStepId S2 = None"
  by (simp add: takeAction_throws scenario_defs)

text \<open>
  Claim C5 is not met by the code. A call by a user who is not the current assignee
  should fail with \<open>UnauthorizedActionError\<close>, the error "not authorized" of
  \<open>takeAction\<close>. The call does fail and writes nothing, but the comparison with the
  current assignee is never reached: the query before it throws, for the reason given for
  C1, and the error is the query builder's. In the scenario \<open>u2\<close> acts on \<open>I1\<close>, whose
  assignee is \<open>u1\<close>.
\<close>

theorem takeAction_non_assignee_throws:
  "takeAction no_condition 9 (action 1 ''u2'' APPROVE) running_db
     = (Inl (RelationNotInferable ''workflowSteps.fromTransitions''), running_db)
   \<and> find (\<lambda>i. inst_id i = 1) (workflowInstances running_db) = Some I1
   \<and> inst_currentAssigneeId I1 = Some ''u1''
   \<and> ta_userId (action 1 ''u2'' APPROVE) = ''u2''
   \<and> kindOf NotAuthorized = UnauthorizedActionError
   \<and> kindOf (RelationNotInferable ''workflowSteps.fromTransitions'') = InternalError
   \<and> fst (takeAction evalCondition now input d) \<noteq> Inl NotAuthorized"
  by (simp add: takeAction_throws scenario_defs)

text \<open>
  Claim C6 is not met by the code. A MODIFY should be refused with
  \<open>ForbiddenActionError\<close> on a step whose \<open>canModify\<close> is false, and recorded on a step
  whose \<open>canModify\<close> is true. Every MODIFY throws instead, for the reason given for C1,
  and the store is left as it was; \<open>canModify\<close> is not read. In the scenario the MODIFY
  of \<open>u1\<close> on \<open>I1\<close>, whose step \<open>M1\<close> allows modification, records no action; the MODIFY
  of \<open>u2\<close> on \<open>I2\<close>, whose step \<open>S2\<close> does not, fails with the query builder's error.
\<close>

theorem takeAction_MODIFY_throws:
  "takeAction evalCondition now (input\<lparr>ta_actionType := MODIFY\<rparr>) d
     = (Inl (RelationNotInferable ''workflowSteps.fromTransitions''), d)
   \<and> takeAction no_condition 9 (action 1 ''u1'' MODIFY) modifiable_db
       = (Inl (RelationNotInferable ''workflowSteps.fromTransitions''), modifiable_db)
   \<and> find (\<lambda>i. inst_id i = 1) (workflowInstances modifiable_db) = Some I1
   \<and> inst_status I1 = ''ACTIVE'' \<and> inst_currentAssigneeId I1 = Some ''u1''
   \<and> find (\<lambda>s. step_id s = inst_currentStepId I1) (workflowSteps modifiable_db) = Some M1
   \<and> step_canModify M1
   \<and> workflowActions modifiable_db = []
   \<and> takeAction no_condition 9 (action 2 ''u2'' MODIFY) running_db
       = (Inl (RelationNotInferable ''workflowSteps.fromTransitions''), running_db)
   \<and> find (\<lambda>i. inst_id i = 2) (workflowInstances running_db) = Some I2
   \<and> inst_currentAssigneeId I2 = Some ''u2''
   \<and> find (\<lambda>s. step_id s = inst_currentStepId I2) (workflowSteps running_db) = Some S2
   \<and> \<not> step_canModify S2
   \<and> kindOf (RelationNotInferable ''workflowSteps.fromTransitions'') \<noteq> ForbiddenActionError"
  by (simp add: takeAction_throws scenario_defs)

text \<open>
  Claim C8 is not met by the code. A call by the current assignee, which passes the
  authorization of the specification, should add exactly one row to the table of actions.
  No call adds a row: the table of actions after a call is the table before it, since the
  query throws before the insert, for the reason given for C1. In the scenario \<open>u2\<close> is
  the current assignee of the \<open>ACTIVE\<close> instance \<open>I2\<close>, and its MODIFY leaves the table
  of actions empty.
\<close>

theorem takeAction_assignee_no_audit_row:
  "workflowActions (snd (takeAction evalCondition now input d)) = workflowActions d
   \<and> find (\<lambda>i. inst_id i = 2) (workflowInstances running_db) = Some I2
   \<and> inst_status I2 = ''ACTIVE'' \<and> inst_currentAssigneeId I2 = Some ''u2''
   \<and> ta_userId (action 2 ''u2'' MODIFY) = ''u2''
   \<and> workflowActions running_db = []
   \<and> workflowActions (snd (takeAction no_condition 9 (action 2 ''u2'' MODIFY) running_db)) = []
   \<and> fst (takeAction no_condition 9 (action 2 ''u2'' MODIFY) running_db)
       = Inl (RelationNotInferable ''workflowSteps.fromTransitions'')"
  by (simp add: takeAction_throws scenario_defs)




end
